theory Spec2Isabelle
  imports Main
begin

section \<open>Python values, strings and exceptions\<close>

text \<open>
  The two Lambda handlers of \<^verbatim>\<open>AWS Utilities - EC2 PowerCycle with auto-update DNS\<close>
  (\<^verbatim>\<open>lambda_PowerCycle.py\<close> and \<^verbatim>\<open>lambda_UpdateDNS.py\<close>) are embedded as HOL functions.

  A decoded JSON value, and every dictionary a handler builds, is a \<open>json\<close>; a dictionary
  is an association list read with \<open>map_of\<close>. A response keeps its body as the dictionary
  handed to \<^verbatim>\<open>json.dumps\<close>; the serialisation itself is not modelled. Log calls have no
  effect on a result and are left out. Strings are lists of code points below 256.
\<close>

datatype json =
    JNull
  | JBool bool
  | JInt int
  | JStr string
  | JArr "json list"
  | JObj "(string \<times> json) list"

text \<open>
  What a call into boto3 can raise: a \<^verbatim>\<open>ClientError\<close> with the code and the message of
  \<^verbatim>\<open>e.response["Error"]\<close> (each may be missing) and its \<^verbatim>\<open>str(e)\<close>, or any other
  \<^verbatim>\<open>Exception\<close> with its \<^verbatim>\<open>str(e)\<close>. \<^verbatim>\<open>AttributeError\<close> is what \<^verbatim>\<open>.get\<close> on a value
  that is not a dictionary raises; it carries the name of the value's type.
\<close>

datatype exn =
    ClientError "string option" "string option" string
  | OtherException string
  | AttributeError string

text \<open>An f-string prints \<^verbatim>\<open>None\<close> for a missing value.\<close>

definition fmt :: "string option \<Rightarrow> string" where
  "fmt v = (case v of None \<Rightarrow> ''None'' | Some s \<Rightarrow> s)"

definition quoted :: "string \<Rightarrow> string" where
  "quoted s = [CHR 0x27] @ s @ [CHR 0x27]"

fun str_exn :: "exn \<Rightarrow> string" where
  "str_exn (ClientError c m s) = s"
| "str_exn (OtherException s) = s"
| "str_exn (AttributeError t) = quoted t @ '' object has no attribute '' @ quoted ''get''"

fun type_name :: "json \<Rightarrow> string" where
  "type_name JNull = ''NoneType''"
| "type_name (JBool b) = ''bool''"
| "type_name (JInt n) = ''int''"
| "type_name (JStr x) = ''str''"
| "type_name (JArr xs) = ''list''"
| "type_name (JObj kvs) = ''dict''"

text \<open>Truth value of an optional string: \<^verbatim>\<open>None\<close> and the empty string are false.\<close>

definition truthy :: "string option \<Rightarrow> bool" where
  "truthy v = (case v of None \<Rightarrow> False | Some x \<Rightarrow> x \<noteq> [])"

definition json_opt :: "string option \<Rightarrow> json" where
  "json_opt v = (case v of None \<Rightarrow> JNull | Some x \<Rightarrow> JStr x)"

text \<open>\<^verbatim>\<open>str.isspace\<close> on the code points below 256.\<close>

definition isspace :: "char \<Rightarrow> bool" where
  "isspace c = (c \<in> set [CHR 0x09, CHR 0x0A, CHR 0x0B, CHR 0x0C, CHR 0x0D, CHR 0x1C,
     CHR 0x1D, CHR 0x1E, CHR 0x1F, CHR 0x20, CHR 0x85, CHR 0xA0])"

definition str_strip :: "string \<Rightarrow> string" where
  "str_strip s = rev (dropWhile isspace (rev (dropWhile isspace s)))"

definition lower_char :: "char \<Rightarrow> char" where
  "lower_char c = (let n = (of_char c :: nat) in
     if (65 \<le> n \<and> n \<le> 90) \<or> (192 \<le> n \<and> n \<le> 222 \<and> n \<noteq> 215)
     then char_of (n + 32) else c)"

definition str_lower :: "string \<Rightarrow> string" where
  "str_lower s = map lower_char s"

text \<open>\<^verbatim>\<open>s.split(sep)\<close>: always at least one piece, empty pieces kept.\<close>

fun str_split :: "char \<Rightarrow> string \<Rightarrow> string list" where
  "str_split sep [] = [[]]"
| "str_split sep (c # cs) =
     (if c = sep then [] # str_split sep cs
      else (case str_split sep cs of
              [] \<Rightarrow> [[c]]
            | t # ts \<Rightarrow> (c # t) # ts))"

definition is_lower_hex :: "char \<Rightarrow> bool" where
  "is_lower_hex c = (c \<in> set ''0123456789abcdef'')"

text \<open>
  \<^verbatim>\<open>re.compile(r"^i-[0-9a-f]{17}$").match(s)\<close>. In Python \<^verbatim>\<open>$\<close> also matches just before
  a newline that ends the string.
\<close>

definition instance_id_regex_match :: "string \<Rightarrow> bool" where
  "instance_id_regex_match s =
     (take 2 s = ''i-'' \<and>
      (let r = drop 2 s in
         (length r = 17 \<and> list_all is_lower_hex r) \<or>
         (length r = 18 \<and> list_all is_lower_hex (take 17 r) \<and> drop 17 r = [CHR 0x0A])))"

section \<open>The AWS collaborators\<close>

text \<open>
  The shapes boto3 returns, typed by the way the handlers read them: a key read with
  \<^verbatim>\<open>.get(k, default)\<close> or tested with \<^verbatim>\<open>in\<close> is optional, a key read with \<^verbatim>\<open>[k]\<close> is
  always there.
\<close>

record tag =
  Key :: string
  Value :: string

record ec2_instance =
  InstanceId :: string
  State_Name :: string
  Tags :: "tag list option"
  PublicIpAddress :: "string option"

record reservation =
  Instances :: "ec2_instance list option"

record describe_page =
  Reservations :: "reservation list option"

text \<open>
  The calls the handlers make, in the order they make them. The trace is part of the
  model's state, next to the state \<open>'w\<close> of the outside world.
\<close>

datatype api_call =
    Ec2Client string
  | PaginateDescribeInstances
  | DescribeInstances string
  | StartInstances string
  | StopInstances string
  | Route53Client
  | ChangeResourceRecordSets string string string int

type_synonym 'w st = "'w \<times> api_call list"

text \<open>
  The outside world: each call takes the world and returns what it returned or raised, and
  the world after it. \<open>None\<close> from a call with no result read by the handler means that it
  returned.
\<close>

record 'w aws =
  ec2_client :: "string \<Rightarrow> 'w \<Rightarrow> exn option \<times> 'w"
  paginate_describe_instances :: "'w \<Rightarrow> (exn + describe_page list) \<times> 'w"
  describe_instances :: "string \<Rightarrow> 'w \<Rightarrow> (exn + describe_page) \<times> 'w"
  start_instances :: "string \<Rightarrow> 'w \<Rightarrow> exn option \<times> 'w"
  stop_instances :: "string \<Rightarrow> 'w \<Rightarrow> exn option \<times> 'w"
  route53_client :: "'w \<Rightarrow> exn option \<times> 'w"
  change_resource_record_sets ::
    "string \<Rightarrow> string \<Rightarrow> string \<Rightarrow> int \<Rightarrow> 'w \<Rightarrow> (exn + (string \<times> json) list) \<times> 'w"

definition call :: "api_call \<Rightarrow> ('w \<Rightarrow> 'r \<times> 'w) \<Rightarrow> 'w st \<Rightarrow> 'r \<times> 'w st" where
  "call c f s = (case f (fst s) of (r, w') \<Rightarrow> (r, (w', snd s @ [c])))"

record response =
  statusCode :: int
  body :: "(string \<times> json) list"

section \<open>lambda\_PowerCycle.py\<close>

text \<open>
  \<^verbatim>\<open>'k' not in event or not isinstance(event['k'], str) or not event['k'].strip()\<close>
  is the negation of \<open>nonblank_str (map_of event k)\<close>.
\<close>

definition nonblank_str :: "json option \<Rightarrow> bool" where
  "nonblank_str v = (case v of Some (JStr s) \<Rightarrow> str_strip s \<noteq> [] | _ \<Rightarrow> False)"

definition the_str :: "json option \<Rightarrow> string" where
  "the_str v = (case v of Some (JStr s) \<Rightarrow> s | _ \<Rightarrow> [])"

text \<open>The loop over the comma-separated tokens (lines 112 to 125).\<close>

definition invalid_format_entry :: "string \<Rightarrow> json" where
  "invalid_format_entry cleaned_id =
     JObj [(''instance_id'', JStr cleaned_id),
           (''reason'', JStr ''Invalid EC2 instance ID format (must be i-xxxxxxxxxxxxxxxxx)'')]"

fun validate_ids :: "string list \<Rightarrow> string list \<times> json list \<Rightarrow> string list \<times> json list" where
  "validate_ids [] acc = acc"
| "validate_ids (instance_id_str # rest) (instances_to_process, failed_initial) =
     (let cleaned_id = str_strip instance_id_str in
      if cleaned_id = [] then validate_ids rest (instances_to_process, failed_initial)
      else if instance_id_regex_match cleaned_id
      then validate_ids rest (instances_to_process @ [cleaned_id], failed_initial)
      else validate_ids rest
             (instances_to_process, failed_initial @ [invalid_format_entry cleaned_id]))"

text \<open>The three nested loops of the \<^verbatim>\<open>all\<close> branch (lines 64 to 76).\<close>

fun select_instances :: "string \<Rightarrow> ec2_instance list \<Rightarrow> string list \<Rightarrow> string list" where
  "select_instances operation [] instances_to_process = instances_to_process"
| "select_instances operation (i # rest) instances_to_process =
     (if operation = ''start'' \<and> State_Name i \<in> set [''stopped'', ''stopping'']
      then select_instances operation rest (instances_to_process @ [InstanceId i])
      else if operation = ''stop'' \<and> State_Name i \<in> set [''running'', ''pending'']
      then select_instances operation rest (instances_to_process @ [InstanceId i])
      else select_instances operation rest instances_to_process)"

fun select_reservations :: "string \<Rightarrow> reservation list \<Rightarrow> string list \<Rightarrow> string list" where
  "select_reservations operation [] instances_to_process = instances_to_process"
| "select_reservations operation (r # rest) instances_to_process =
     select_reservations operation rest
       (select_instances operation (case Instances r of None \<Rightarrow> [] | Some is \<Rightarrow> is)
          instances_to_process)"

fun select_pages :: "string \<Rightarrow> describe_page list \<Rightarrow> string list \<Rightarrow> string list" where
  "select_pages operation [] instances_to_process = instances_to_process"
| "select_pages operation (p # rest) instances_to_process =
     select_pages operation rest
       (select_reservations operation (case Reservations p of None \<Rightarrow> [] | Some rs \<Rightarrow> rs)
          instances_to_process)"

text \<open>The execution loop (lines 158 to 185): one call per identifier, never batched.\<close>

definition failure_entry :: "string \<Rightarrow> exn \<Rightarrow> json" where
  "failure_entry instance_id e =
     JObj [(''instance_id'', JStr instance_id),
           (''reason'', JStr (case e of
               ClientError error_code error_message s \<Rightarrow>
                 ''AWS API Error: ['' @ fmt error_code @ ''] '' @ fmt error_message
             | _ \<Rightarrow> ''Unexpected error: '' @ str_exn e))]"

text \<open>The body of the \<^verbatim>\<open>try\<close> (lines 160 to 165): \<open>None\<close> when nothing was raised.\<close>

definition start_or_stop :: "'w aws \<Rightarrow> string \<Rightarrow> string \<Rightarrow> 'w st \<Rightarrow> exn option \<times> 'w st" where
  "start_or_stop aws operation instance_id s =
     (if operation = ''start''
      then call (StartInstances instance_id) (start_instances aws instance_id) s
      else if operation = ''stop''
      then call (StopInstances instance_id) (stop_instances aws instance_id) s
      else (None, s))"

fun run_operations ::
  "'w aws \<Rightarrow> string \<Rightarrow> string list \<Rightarrow> string list \<times> json list \<Rightarrow> 'w st
     \<Rightarrow> (string list \<times> json list) \<times> 'w st" where
  "run_operations aws operation [] acc s = (acc, s)"
| "run_operations aws operation (instance_id # rest) (successful_operations, failed_operations) s =
     (case start_or_stop aws operation instance_id s of
        (None, s') \<Rightarrow>
          run_operations aws operation rest
            (successful_operations @ [instance_id], failed_operations) s'
      | (Some e, s') \<Rightarrow>
          run_operations aws operation rest
            (successful_operations, failed_operations @ [failure_entry instance_id e]) s')"

text \<open>The overall status and the final response (lines 187 to 216).\<close>

definition final_response ::
  "string \<Rightarrow> string \<Rightarrow> string list \<Rightarrow> json list \<Rightarrow> response" where
  "final_response operation region successful_operations failed_operations =
     (let (status_code, overall_message) =
        (if successful_operations = [] \<and> failed_operations \<noteq> []
         then (500, ''Failed to '' @ operation
                 @ '' any of the specified instances. Check 'failed_instances' for details.'')
         else if successful_operations \<noteq> [] \<and> failed_operations \<noteq> []
         then (200, ''Successfully initiated '' @ operation
                 @ '' for some instances, others failed. Check results for details.'')
         else (200, ''Successfully initiated '' @ operation @ '' for all specified instances.''))
      in \<lparr> statusCode = status_code,
           body = [(''message'', JStr overall_message),
                   (''operation'', JStr operation),
                   (''successful_instances'', JArr (map JStr successful_operations)),
                   (''failed_instances'', JArr failed_operations),
                   (''region'', JStr region)] \<rparr>)"

text \<open>Lines 127 to 216: the two empty-list checks, the loop and the final response.\<close>

definition process_instances ::
  "'w aws \<Rightarrow> string \<Rightarrow> string \<Rightarrow> string list \<Rightarrow> json list \<Rightarrow> 'w st \<Rightarrow> response \<times> 'w st" where
  "process_instances aws operation region instances_to_process failed_initial s =
     (if instances_to_process = [] \<and> failed_initial = []
      then (\<lparr> statusCode = 400,
              body = [(''message'', JStr ''No valid EC2 instance IDs provided for processing.'')] \<rparr>,
            s)
      else if instances_to_process = [] \<and> failed_initial \<noteq> []
      then (\<lparr> statusCode = 400,
              body = [(''message'', JStr ''All provided EC2 instance IDs had an invalid format.''),
                      (''invalid_instances'', JArr failed_initial)] \<rparr>,
            s)
      else (case run_operations aws operation instances_to_process ([], failed_initial) s of
              ((successful_operations, failed_operations), s') \<Rightarrow>
                (final_response operation region successful_operations failed_operations, s')))"

text \<open>Lines 56 to 104: the \<^verbatim>\<open>all\<close> branch.\<close>

definition process_all :: "'w aws \<Rightarrow> string \<Rightarrow> string \<Rightarrow> 'w st \<Rightarrow> response \<times> 'w st" where
  "process_all aws operation region s =
     (case call PaginateDescribeInstances (paginate_describe_instances aws) s of
        (Inl (ClientError error_code error_message es), s') \<Rightarrow>
          (\<lparr> statusCode = 500,
             body = [(''message'', JStr (''Failed to list all instances in '' @ region @ '': ''
                        @ fmt error_message))] \<rparr>, s')
      | (Inl e, s') \<Rightarrow>
          (\<lparr> statusCode = 500,
             body = [(''message'', JStr (''Unexpected error listing all instances in '' @ region
                        @ '': '' @ str_exn e))] \<rparr>, s')
      | (Inr pages, s') \<Rightarrow>
          (let instances_to_process = select_pages operation pages [] in
           if instances_to_process = []
           then (\<lparr> statusCode = 200,
                   body = [(''message'', JStr (''No instances found in suitable state for '' @ quoted operation
                              @ '' operation in region '' @ quoted region @ ''.'')),
                           (''operation'', JStr operation),
                           (''successful_instances'', JArr []),
                           (''failed_instances'', JArr [])] \<rparr>, s')
           else process_instances aws operation region instances_to_process [] s'))"

definition PowerCycle_lambda_handler ::
  "'w aws \<Rightarrow> (string \<times> json) list \<Rightarrow> 'w st \<Rightarrow> response \<times> 'w st" where
  "PowerCycle_lambda_handler aws event s =
     (if \<not> nonblank_str (map_of event ''region'')
      then (\<lparr> statusCode = 400,
              body = [(''message'', JStr ''Missing or invalid 'region' in event.'')] \<rparr>, s)
      else let region = str_strip (the_str (map_of event ''region'')) in
      if map_of event ''operation'' \<notin> set [Some (JStr ''start''), Some (JStr ''stop'')]
      then (\<lparr> statusCode = 400,
              body = [(''message'',
                JStr ''Missing or invalid 'operation' in event. Must be 'start' or 'stop'.'')] \<rparr>, s)
      else let operation = the_str (map_of event ''operation'') in
      if \<not> nonblank_str (map_of event ''instances'')
      then (\<lparr> statusCode = 400,
              body = [(''message'',
                JStr (''Missing or invalid 'instances' in event. ''
                  @ ''Must be 'all' or a comma-separated list of EC2 instance IDs.''))] \<rparr>, s)
      else let instances_input = str_strip (the_str (map_of event ''instances'')) in
      (case call (Ec2Client region) (ec2_client aws region) s of
         (Some e, s') \<Rightarrow>
           (\<lparr> statusCode = 500,
              body = [(''message'',
                JStr (''Failed to initialize EC2 client for region '' @ region @ ''.''))] \<rparr>, s')
       | (None, s') \<Rightarrow>
           if str_lower instances_input = ''all''
           then process_all aws operation region s'
           else (case validate_ids (str_split (CHR '','') instances_input) ([], []) of
                   (instances_to_process, failed_initial) \<Rightarrow>
                     process_instances aws operation region instances_to_process
                       failed_initial s')))"

section \<open>lambda\_UpdateDNS.py\<close>

definition HOSTED_ZONE_ID :: string where
  "HOSTED_ZONE_ID = ''Z00000000X0XXXXXXXXX''"

definition DNS_RECORD_TTL :: int where
  "DNS_RECORD_TTL = 30"

subsection \<open>do\_dns\_update\<close>

text \<open>
  The body of the \<^verbatim>\<open>try\<close> (lines 180 to 208). The log line after the call reads
  \<^verbatim>\<open>change_info.get('Id')\<close>, which raises when \<^verbatim>\<open>ChangeInfo\<close> is not a dictionary.
\<close>

definition do_dns_update_try ::
  "'w aws \<Rightarrow> string \<Rightarrow> string \<Rightarrow> string \<Rightarrow> int \<Rightarrow> 'w st \<Rightarrow> (exn + json) \<times> 'w st" where
  "do_dns_update_try aws hosted_zone_id dns_name ip_address ttl s =
     (case call Route53Client (route53_client aws) s of
        (Some e, s1) \<Rightarrow> (Inl e, s1)
      | (None, s1) \<Rightarrow>
          (case call (ChangeResourceRecordSets hosted_zone_id dns_name ip_address ttl)
                  (change_resource_record_sets aws hosted_zone_id dns_name ip_address ttl) s1 of
             (Inl e, s2) \<Rightarrow> (Inl e, s2)
           | (Inr response, s2) \<Rightarrow>
               (let change_info =
                  (case map_of response ''ChangeInfo'' of None \<Rightarrow> JObj [] | Some v \<Rightarrow> v)
                in case change_info of
                     JObj kvs \<Rightarrow>
                       (Inr (JObj [(''dns_name'', JStr dns_name),
                                   (''ip_address'', JStr ip_address),
                                   (''action'', JStr ''UPSERT''),
                                   (''change_info'', change_info),
                                   (''status'', JStr ''success'')]), s2)
                   | _ \<Rightarrow> (Inl (AttributeError (type_name change_info)), s2))))"

text \<open>
  The function with its two handlers (lines 210 to 232). \<open>Inl\<close> would be an exception
  leaving the function.
\<close>

definition do_dns_update ::
  "'w aws \<Rightarrow> string \<Rightarrow> string \<Rightarrow> string \<Rightarrow> int \<Rightarrow> 'w st \<Rightarrow> (exn + json) \<times> 'w st" where
  "do_dns_update aws hosted_zone_id dns_name ip_address ttl s =
     (case do_dns_update_try aws hosted_zone_id dns_name ip_address ttl s of
        (Inr result, s') \<Rightarrow> (Inr result, s')
      | (Inl (ClientError error_code error_message es), s') \<Rightarrow>
          (Inr (JObj [(''dns_name'', JStr dns_name),
                      (''ip_address'', JStr ip_address),
                      (''action'', JStr ''UPSERT''),
                      (''status'', JStr ''error''),
                      (''error_code'', json_opt error_code),
                      (''error_message'', json_opt error_message)]), s')
      | (Inl e, s') \<Rightarrow>
          (Inr (JObj [(''dns_name'', JStr dns_name),
                      (''ip_address'', JStr ip_address),
                      (''action'', JStr ''UPSERT''),
                      (''status'', JStr ''error''),
                      (''error_message'', JStr (''Unexpected error updating DNS record for ''
                         @ dns_name @ '' to '' @ ip_address @ '': '' @ str_exn e))]), s'))"

subsection \<open>lambda\_handler\<close>

text \<open>
  The state-change event, by the fields the handler reads. \<^verbatim>\<open>detail\<close> is absent, a
  dictionary with or without an \<^verbatim>\<open>instance-id\<close>, or some value that is not a dictionary.
  The values of \<^verbatim>\<open>instance-id\<close> and \<^verbatim>\<open>region\<close> are strings.
\<close>

datatype detail_field =
    Detail "string option"
  | NonDict json

record sync_event =
  ev_detail :: "detail_field option"
  ev_region :: "string option"

definition event_json :: "sync_event \<Rightarrow> json" where
  "event_json event =
     JObj ((case ev_detail event of
              None \<Rightarrow> []
            | Some (Detail i) \<Rightarrow>
                [(''detail'', JObj (case i of None \<Rightarrow> [] | Some x \<Rightarrow> [(''instance-id'', JStr x)]))]
            | Some (NonDict v) \<Rightarrow> [(''detail'', v)])
           @ (case ev_region event of None \<Rightarrow> [] | Some r \<Rightarrow> [(''region'', JStr r)]))"

text \<open>The loop over the tags (lines 73 to 78): a later tag with the same key wins.\<close>

fun scan_tags :: "tag list \<Rightarrow> string option \<times> string option \<Rightarrow> string option \<times> string option" where
  "scan_tags [] acc = acc"
| "scan_tags (t # rest) (dns_name, ec2_name) =
     scan_tags rest
       (if Key t = ''PublicDNS'' then Some (Value t) else dns_name,
        if Key t = ''Name'' then Some (Value t) else ec2_name)"

text \<open>
  Lines 80 to 92: the name to update, or \<open>None\<close> where the handler returns 400.
\<close>

definition resolve_dns_name :: "ec2_instance \<Rightarrow> string option" where
  "resolve_dns_name i =
     (case scan_tags (case Tags i of None \<Rightarrow> [] | Some ts \<Rightarrow> ts) (None, None) of
        (dns_name, ec2_name) \<Rightarrow>
          if \<not> truthy dns_name
          then (if truthy ec2_name then ec2_name else None)
          else dns_name)"

definition no_dns_name_response :: "ec2_instance \<Rightarrow> response" where
  "no_dns_name_response i =
     \<lparr> statusCode = 400,
       body = [(''status'', JStr ''error''),
               (''message'', JStr (''Cannot determine DNS name for instance ''
                  @ quoted (InstanceId i) @ '': No tags found on the instance.''))] \<rparr>"

text \<open>Lines 104 to 118.\<close>

definition skipped_entry :: "ec2_instance \<Rightarrow> string option \<Rightarrow> string option \<Rightarrow> json" where
  "skipped_entry i dns_name ip_address =
     (let reason_msg1 =
            (if \<not> truthy dns_name
             then ''Missing or empty 'PublicDNS' and no usable 'Name' tag.'' else []);
          reason_msg =
            (if \<not> truthy ip_address
             then (if reason_msg1 \<noteq> [] then reason_msg1 @ '' And '' else reason_msg1)
                    @ ''missing 'PublicIpAddress'.''
             else reason_msg1);
          msg = ''Skipping instance '' @ quoted (InstanceId i) @ '': '' @ reason_msg
      in JObj [(''instance_id'', JStr (InstanceId i)),
               (''action'', JStr ''skipped''),
               (''reason'', JStr msg),
               (''status'', JStr ''skipped'')])"

text \<open>
  One pass of the inner loop body (lines 67 to 118). \<open>Inl\<close> leaves the handler, with a
  response or with an exception on its way to the outer \<^verbatim>\<open>except\<close>; \<open>Inr\<close> goes on with
  the results so far.
\<close>

definition process_instance ::
  "'w aws \<Rightarrow> ec2_instance \<Rightarrow> json list \<Rightarrow> 'w st
     \<Rightarrow> ((exn + response) + json list) \<times> 'w st" where
  "process_instance aws i update_results s =
     (case resolve_dns_name i of
        None \<Rightarrow> (Inl (Inr (no_dns_name_response i)), s)
      | Some name \<Rightarrow>
          (let dns_name = Some name; ip_address = PublicIpAddress i in
           if truthy dns_name \<and> truthy ip_address
           then (case do_dns_update aws HOSTED_ZONE_ID name (the ip_address) DNS_RECORD_TTL s of
                   (Inl e, s') \<Rightarrow> (Inl (Inl e), s')
                 | (Inr update_result, s') \<Rightarrow> (Inr (update_results @ [update_result]), s'))
           else (Inr (update_results @ [skipped_entry i dns_name ip_address]), s)))"

fun process_instances_sync ::
  "'w aws \<Rightarrow> ec2_instance list \<Rightarrow> bool \<times> json list \<Rightarrow> 'w st
     \<Rightarrow> ((exn + response) + bool \<times> json list) \<times> 'w st" where
  "process_instances_sync aws [] acc s = (Inr acc, s)"
| "process_instances_sync aws (i # rest) (found_instance_details, update_results) s =
     (case process_instance aws i update_results s of
        (Inl r, s') \<Rightarrow> (Inl r, s')
      | (Inr update_results', s') \<Rightarrow> process_instances_sync aws rest (True, update_results') s')"

fun process_reservations ::
  "'w aws \<Rightarrow> reservation list \<Rightarrow> bool \<times> json list \<Rightarrow> 'w st
     \<Rightarrow> ((exn + response) + bool \<times> json list) \<times> 'w st" where
  "process_reservations aws [] acc s = (Inr acc, s)"
| "process_reservations aws (r # rest) acc s =
     (case process_instances_sync aws (case Instances r of None \<Rightarrow> [] | Some is \<Rightarrow> is) acc s of
        (Inl x, s') \<Rightarrow> (Inl x, s')
      | (Inr acc', s') \<Rightarrow> process_reservations aws rest acc' s')"

text \<open>Lines 133 to 156.\<close>

definition result_status :: "json \<Rightarrow> json option" where
  "result_status result = (case result of JObj kvs \<Rightarrow> map_of kvs ''status'' | _ \<Rightarrow> None)"

definition any_error :: "json list \<Rightarrow> bool" where
  "any_error update_results =
     list_ex (\<lambda>result. result_status result = Some (JStr ''error'')) update_results"

definition aggregate :: "string \<Rightarrow> string \<Rightarrow> json list \<Rightarrow> response" where
  "aggregate instance_id region update_results =
     (let overall_status_message0 = ''DNS update process completed successfully.'';
          final_status_code0 = 200;
          overall_status_message1 =
            (if any_error update_results
             then ''Some DNS updates failed. Check 'updates' for details.''
             else overall_status_message0);
          (overall_status_message, final_status_code) =
            (if update_results = []
             then (''No DNS updates were attempted for instance '' @ instance_id @ ''.'', 200)
             else (overall_status_message1, final_status_code0))
      in \<lparr> statusCode = final_status_code,
           body = [(''status'', JStr (if \<not> any_error update_results then ''success''
                                      else ''partial_success_with_errors'')),
                   (''message'', JStr overall_status_message),
                   (''instance_id'', JStr instance_id),
                   (''region'', JStr region),
                   (''updates'', JArr update_results)] \<rparr>)"

text \<open>The body of the outer \<^verbatim>\<open>try\<close> (lines 40 to 156).\<close>

definition lambda_handler_try ::
  "'w aws \<Rightarrow> string \<Rightarrow> string \<Rightarrow> 'w st \<Rightarrow> (exn + response) \<times> 'w st" where
  "lambda_handler_try aws instance_id region s =
     (case call (Ec2Client region) (ec2_client aws region) s of
        (Some e, s1) \<Rightarrow> (Inl e, s1)
      | (None, s1) \<Rightarrow>
          (case call (DescribeInstances instance_id) (describe_instances aws instance_id) s1 of
             (Inl (ClientError error_code error_message es), s2) \<Rightarrow>
               (Inr \<lparr> statusCode = 404,
                      body = [(''status'', JStr ''error''),
                              (''message'', JStr (''Failed to describe instance '' @ instance_id
                                 @ '': '' @ fmt error_message))] \<rparr>, s2)
           | (Inl e, s2) \<Rightarrow>
               (Inr \<lparr> statusCode = 500,
                      body = [(''status'', JStr ''error''),
                              (''message'', JStr (''Unexpected error describing instance ''
                                 @ instance_id @ '': '' @ str_exn e))] \<rparr>, s2)
           | (Inr described_instances_response, s2) \<Rightarrow>
               (let reservations =
                  (case Reservations described_instances_response of
                     None \<Rightarrow> [] | Some rs \<Rightarrow> rs)
                in case process_reservations aws reservations (False, []) s2 of
                     (Inl r, s3) \<Rightarrow> (r, s3)
                   | (Inr (found_instance_details, update_results), s3) \<Rightarrow>
                       if \<not> found_instance_details
                       then (Inr \<lparr> statusCode = 404,
                                   body = [(''status'', JStr ''error''),
                                           (''message'', JStr (''Instance with ID ''
                                              @ quoted instance_id
                                              @ '' not found or could not be described.'')),
                                           (''instance_id'', JStr instance_id),
                                           (''region'', JStr region)] \<rparr>, s3)
                       else (Inr (aggregate instance_id region update_results), s3))))"

text \<open>
  The handler: the reads and the validation before the \<^verbatim>\<open>try\<close> (lines 19 to 35), then
  the \<^verbatim>\<open>try\<close> with its \<^verbatim>\<open>except Exception\<close> (lines 158 to 170). \<open>Inl\<close> is an exception
  that leaves the handler.
\<close>

definition UpdateDNS_lambda_handler ::
  "'w aws \<Rightarrow> sync_event \<Rightarrow> 'w st \<Rightarrow> (exn + response) \<times> 'w st" where
  "UpdateDNS_lambda_handler aws event s =
     (case (case ev_detail event of
              None \<Rightarrow> Inr None
            | Some (Detail i) \<Rightarrow> Inr i
            | Some (NonDict v) \<Rightarrow> Inl (AttributeError (type_name v))) of
        Inl e \<Rightarrow> (Inl e, s)
      | Inr instance_id \<Rightarrow>
          if \<not> truthy instance_id \<or> \<not> truthy (ev_region event)
          then (Inr \<lparr> statusCode = 400,
                      body = [(''status'', JStr ''error''),
                              (''message'', JStr
                                 ''Missing 'instance-id' or 'region' in the EC2 state-change event detail.''),
                              (''event'', event_json event)] \<rparr>, s)
          else (case lambda_handler_try aws (the instance_id) (the (ev_region event)) s of
                  (Inr r, s') \<Rightarrow> (Inr r, s')
                | (Inl e, s') \<Rightarrow>
                    (Inr \<lparr> statusCode = 500,
                           body = [(''status'', JStr ''error''),
                                   (''message'', JStr
                                      (''An unexpected error occurred during execution: ''
                                       @ str_exn e)),
                                   (''instance_id'', JStr (the instance_id)),
                                   (''region'', JStr (the (ev_region event))),
                                   (''event'', event_json event)] \<rparr>, s')))"

section \<open>Reading requests, responses and traces\<close>

text \<open>
  A PowerCycle request passes field validation when none of the three checks of
  lines 17 to 40 returns; the handler then works with these three values.
\<close>

definition fields_valid :: "(string \<times> json) list \<Rightarrow> bool" where
  "fields_valid event =
     (nonblank_str (map_of event ''region'') \<and>
      map_of event ''operation'' \<in> set [Some (JStr ''start''), Some (JStr ''stop'')] \<and>
      nonblank_str (map_of event ''instances''))"

definition request_region :: "(string \<times> json) list \<Rightarrow> string" where
  "request_region event = str_strip (the_str (map_of event ''region''))"

definition request_operation :: "(string \<times> json) list \<Rightarrow> string" where
  "request_operation event = the_str (map_of event ''operation'')"

definition request_instances :: "(string \<times> json) list \<Rightarrow> string" where
  "request_instances event = str_strip (the_str (map_of event ''instances''))"

text \<open>The list under a key of a response body; empty when the key is missing.\<close>

definition body_list :: "response \<Rightarrow> string \<Rightarrow> json list" where
  "body_list r k = (case map_of (body r) k of Some (JArr xs) \<Rightarrow> xs | _ \<Rightarrow> [])"

definition entry_instance_id :: "json \<Rightarrow> string option" where
  "entry_instance_id e =
     (case e of
        JObj kvs \<Rightarrow> (case map_of kvs ''instance_id'' of Some (JStr i) \<Rightarrow> Some i | _ \<Rightarrow> None)
      | _ \<Rightarrow> None)"

text \<open>The call that the execution loop makes for one identifier.\<close>

definition op_call :: "string \<Rightarrow> string \<Rightarrow> api_call" where
  "op_call operation i = (if operation = ''start'' then StartInstances i else StopInstances i)"

text \<open>
  The pattern in the words of the specification: \<^verbatim>\<open>i-\<close> followed by exactly 17 lowercase
  hexadecimal characters, and nothing else.
\<close>

definition spec_instance_id_pattern :: "string \<Rightarrow> bool" where
  "spec_instance_id_pattern x =
     (take 2 x = ''i-'' \<and> length x = 19 \<and> list_all is_lower_hex (drop 2 x))"

text \<open>The tokens of an explicit list after trimming, without the empty ones.\<close>

definition cleaned_tokens :: "string list \<Rightarrow> string list" where
  "cleaned_tokens ts = filter (\<lambda>c. c \<noteq> []) (map str_strip ts)"

text \<open>All the instances of a paginated listing, and of one response, in order.\<close>

definition reservation_instances :: "reservation list \<Rightarrow> ec2_instance list" where
  "reservation_instances rs =
     concat (map (\<lambda>r. case Instances r of None \<Rightarrow> [] | Some is \<Rightarrow> is) rs)"

definition page_instances :: "describe_page \<Rightarrow> ec2_instance list" where
  "page_instances p =
     reservation_instances (case Reservations p of None \<Rightarrow> [] | Some rs \<Rightarrow> rs)"

definition listed_instances :: "describe_page list \<Rightarrow> ec2_instance list" where
  "listed_instances pages = concat (map page_instances pages)"

text \<open>The states the specification selects for an operation.\<close>

definition spec_suitable :: "string \<Rightarrow> ec2_instance \<Rightarrow> bool" where
  "spec_suitable operation i =
     ((operation = ''start'' \<and> (State_Name i = ''stopped'' \<or> State_Name i = ''stopping'')) \<or>
      (operation = ''stop'' \<and> (State_Name i = ''running'' \<or> State_Name i = ''pending'')))"

text \<open>The tag of an instance with a given key: the last one, should the key be repeated.\<close>

definition tag_value :: "ec2_instance \<Rightarrow> string \<Rightarrow> string option" where
  "tag_value i k =
     map_of (rev (map (\<lambda>t. (Key t, Value t)) (case Tags i of None \<Rightarrow> [] | Some ts \<Rightarrow> ts))) k"

text \<open>A field of an update result, as \<^verbatim>\<open>result.get(k)\<close> reads it.\<close>

definition result_field :: "json \<Rightarrow> string \<Rightarrow> json option" where
  "result_field result k = (case result of JObj kvs \<Rightarrow> map_of kvs k | _ \<Rightarrow> None)"

text \<open>
  The \<^verbatim>\<open>instance-id\<close> of a state-change event, when its \<^verbatim>\<open>detail\<close> can be read: the
  \<^verbatim>\<open>detail\<close> is absent or a dictionary. An event is well formed when it can be read and
  both the \<^verbatim>\<open>instance-id\<close> and the \<^verbatim>\<open>region\<close> are there and not empty: the handler then
  enters its \<^verbatim>\<open>try\<close>.
\<close>

definition event_instance_id :: "sync_event \<Rightarrow> string option" where
  "event_instance_id event = (case ev_detail event of Some (Detail i) \<Rightarrow> i | _ \<Rightarrow> None)"

definition detail_readable :: "sync_event \<Rightarrow> bool" where
  "detail_readable event = (case ev_detail event of Some (NonDict v) \<Rightarrow> False | _ \<Rightarrow> True)"

definition sync_event_valid :: "sync_event \<Rightarrow> bool" where
  "sync_event_valid event =
     (detail_readable event \<and> truthy (event_instance_id event) \<and> truthy (ev_region event))"

section \<open>Example worlds\<close>

text \<open>
  A world without state: every client is built, the listing returns \<open>pages\<close>, describing
  an instance returns the first of them, \<open>outcome\<close> decides each start and stop by the
  identifier, and \<open>change\<close> is what the record change returns or raises.
\<close>

definition example_aws ::
  "describe_page list \<Rightarrow> (string \<Rightarrow> exn option) \<Rightarrow> (exn + (string \<times> json) list) \<Rightarrow> unit aws" where
  "example_aws pages outcome change =
     \<lparr> ec2_client = (\<lambda>region w. (None, w)),
       paginate_describe_instances = (\<lambda>w. (Inr pages, w)),
       describe_instances =
         (\<lambda>i w. (Inr (case pages of [] \<Rightarrow> \<lparr> Reservations = None \<rparr> | p # ps \<Rightarrow> p), w)),
       start_instances = (\<lambda>i w. (outcome i, w)),
       stop_instances = (\<lambda>i w. (outcome i, w)),
       route53_client = (\<lambda>w. (None, w)),
       change_resource_record_sets = (\<lambda>zone name ip ttl w. (change, w)) \<rparr>"

definition example_instance :: "string \<Rightarrow> string \<Rightarrow> (string \<times> string) list \<Rightarrow> string option \<Rightarrow> ec2_instance" where
  "example_instance i state tags ip =
     \<lparr> InstanceId = i, State_Name = state,
       Tags = Some (map (\<lambda>(k, v). \<lparr> Key = k, Value = v \<rparr>) tags),
       PublicIpAddress = ip \<rparr>"

definition example_page :: "ec2_instance list \<Rightarrow> describe_page" where
  "example_page is = \<lparr> Reservations = Some [\<lparr> Instances = Some is \<rparr>] \<rparr>"

definition example_request :: "string \<Rightarrow> string \<Rightarrow> (string \<times> json) list" where
  "example_request operation instances =
     [(''region'', JStr ''eu-west-1''), (''operation'', JStr operation),
      (''instances'', JStr instances)]"

definition example_event :: sync_event where
  "example_event =
     \<lparr> ev_detail = Some (Detail (Some ''i-0123456789abcdef0'')), ev_region = Some ''eu-west-1'' \<rparr>"

definition change_ok :: "exn + (string \<times> json) list" where
  "change_ok = Inr [(''ChangeInfo'', JObj [(''Id'', JStr ''/change/C2682N5HXP0BZ4''),
                                          (''Status'', JStr ''PENDING'')])]"

section \<open>Strings and tokens\<close>

lemma str_strip_last: "str_strip t \<noteq> [] \<Longrightarrow> \<not> isspace (last (str_strip t))"
  unfolding str_strip_def
  by (simp add: last_rev hd_dropWhile)

lemma newline_isspace: "isspace (CHR 0x0A)"
  by (simp add: isspace_def)

lemma regex_match_stripped:
  "instance_id_regex_match (str_strip t) = spec_instance_id_pattern (str_strip t)"
proof (cases "str_strip t = []")
  case True
  then show ?thesis by (simp add: instance_id_regex_match_def spec_instance_id_pattern_def)
next
  case False
  define c where "c = str_strip t"
  have nl: "\<not> isspace (last c)" using False str_strip_last c_def by simp
  have "\<not> (length (drop 2 c) = 18 \<and> drop 17 (drop 2 c) = [CHR 0x0A])"
  proof
    assume a: "length (drop 2 c) = 18 \<and> drop 17 (drop 2 c) = [CHR 0x0A]"
    then have "drop 19 c = [CHR 0x0A]" by simp
    then have "last c = CHR 0x0A"
      by (metis append_take_drop_id last_appendR last_snoc list.distinct(1) append_Nil)
    with nl newline_isspace show False by simp
  qed
  then show ?thesis
    unfolding instance_id_regex_match_def spec_instance_id_pattern_def Let_def c_def[symmetric]
    by auto
qed

lemma validate_ids_eq:
  "validate_ids ts (ps, fs) =
     (ps @ filter instance_id_regex_match (cleaned_tokens ts),
      fs @ map invalid_format_entry (filter (\<lambda>c. \<not> instance_id_regex_match c) (cleaned_tokens ts)))"
  by (induction ts arbitrary: ps fs) (simp_all add: cleaned_tokens_def Let_def)



lemma call_snd: "snd (snd (call c f s)) = snd s @ [c]"
  by (simp add: call_def split: prod.splits)

lemma entry_instance_id_failure [simp]: "entry_instance_id (failure_entry i e) = Some i"
  by (simp add: entry_instance_id_def failure_entry_def)

lemma entry_instance_id_invalid [simp]: "entry_instance_id (invalid_format_entry i) = Some i"
  by (simp add: entry_instance_id_def invalid_format_entry_def)

lemma run_operations_calls:
  "operation = ''start'' \<or> operation = ''stop'' \<Longrightarrow>
   snd (snd (run_operations aws operation ids (succ, failed) s)) = snd s @ map (op_call operation) ids"
proof (induction ids arbitrary: succ failed s)
  case Nil
  then show ?case by simp
next
  case (Cons i ids)
  then show ?case
    by (auto simp: op_call_def call_def start_or_stop_def split: prod.splits option.splits)
qed

lemma run_operations_counts:
  "run_operations aws operation ids (succ, failed) s = ((succ', failed'), s') \<Longrightarrow>
   count_list succ' x + count_list (map entry_instance_id failed') (Some x)
     = count_list succ x + count_list (map entry_instance_id failed) (Some x) + count_list ids x"
proof (induction ids arbitrary: succ failed s)
  case Nil
  then show ?case by simp
next
  case (Cons i ids)
  then show ?case
    by (auto split: prod.splits option.splits if_splits)
qed

lemma run_operations_lengths:
  "run_operations aws operation ids (succ, failed) s = ((succ', failed'), s') \<Longrightarrow>
   length succ' + length failed' = length succ + length failed + length ids"
proof (induction ids arbitrary: succ failed s)
  case Nil
  then show ?case by simp
next
  case (Cons i ids)
  then show ?case
    by (fastforce split: prod.splits option.splits if_splits)
qed

lemma run_operations_failed_mono:
  "run_operations aws operation ids (succ, failed) s = ((succ', failed'), s') \<Longrightarrow>
   \<exists>new. failed' = failed @ new \<and> (\<forall>e \<in> set new. \<exists>i \<in> set ids. \<exists>x. e = failure_entry i x)"
proof (induction ids arbitrary: succ failed s)
  case Nil
  then show ?case by simp
next
  case (Cons i ids)
  then show ?case
    by (fastforce split: prod.splits option.splits if_splits)
qed

lemma run_operations_succ:
  "run_operations aws operation ids (succ, failed) s = ((succ', failed'), s') \<Longrightarrow>
   \<exists>new. succ' = succ @ new \<and> set new \<subseteq> set ids \<and> (failed' = failed \<longrightarrow> new = ids)"
proof (induction ids arbitrary: succ failed s)
  case Nil
  then show ?case by simp
next
  case (Cons i ids)
  obtain r s1 where step: "start_or_stop aws operation i s = (r, s1)"
    by (cases "start_or_stop aws operation i s") auto
  show ?case
  proof (cases r)
    case None
    with step Cons.prems
    have "run_operations aws operation ids (succ @ [i], failed) s1 = ((succ', failed'), s')"
      by simp
    from Cons.IH[OF this] obtain new where
      "succ' = (succ @ [i]) @ new" "set new \<subseteq> set ids" "failed' = failed \<longrightarrow> new = ids"
      by blast
    then show ?thesis by (intro exI[of _ "i # new"]) auto
  next
    case (Some e)
    with step Cons.prems
    have run: "run_operations aws operation ids (succ, failed @ [failure_entry i e]) s1
                 = ((succ', failed'), s')"
      by simp
    from run_operations_failed_mono[OF run] have ne: "failed' \<noteq> failed" by auto
    from Cons.IH[OF run] obtain new where
      "succ' = succ @ new" "set new \<subseteq> set ids"
      by blast
    with ne show ?thesis by (intro exI[of _ new]) auto
  qed
qed


lemma handler_resolved:
  assumes "fields_valid event"
    and "ec2_client aws (request_region event) w = (None, w1)"
  shows "PowerCycle_lambda_handler aws event (w, tr) =
     (if str_lower (request_instances event) = ''all''
      then process_all aws (request_operation event) (request_region event)
             (w1, tr @ [Ec2Client (request_region event)])
      else process_instances aws (request_operation event) (request_region event)
             (fst (validate_ids (str_split (CHR '','') (request_instances event)) ([], [])))
             (snd (validate_ids (str_split (CHR '','') (request_instances event)) ([], [])))
             (w1, tr @ [Ec2Client (request_region event)]))"
  using assms
  unfolding PowerCycle_lambda_handler_def fields_valid_def request_region_def
    request_operation_def request_instances_def Let_def call_def
  by (simp split: prod.splits)

lemma request_operation_valid:
  "fields_valid event \<Longrightarrow> request_operation event = ''start'' \<or> request_operation event = ''stop''"
  unfolding fields_valid_def request_operation_def the_str_def by auto

section \<open>PowerCycle: responses and the execution loop\<close>

lemma final_response_body:
  "map_of (body (final_response operation region succ failed)) ''successful_instances''
     = Some (JArr (map JStr succ))"
  "map_of (body (final_response operation region succ failed)) ''failed_instances''
     = Some (JArr failed)"
  "map_of (body (final_response operation region succ failed)) ''operation'' = Some (JStr operation)"
  "map_of (body (final_response operation region succ failed)) ''region'' = Some (JStr region)"
  "\<exists>m. map_of (body (final_response operation region succ failed)) ''message'' = Some (JStr m)"
  by (simp_all add: final_response_def Let_def split: prod.splits)

lemma final_response_status:
  "statusCode (final_response operation region succ failed)
     = (if succ = [] \<and> failed \<noteq> [] then 500 else 200)"
  by (simp add: final_response_def Let_def split: prod.splits)

lemma process_instances_nonempty:
  "ids \<noteq> [] \<Longrightarrow>
   process_instances aws operation region ids invalid s =
     (case run_operations aws operation ids ([], invalid) s of
        ((succ, failed), s') \<Rightarrow> (final_response operation region succ failed, s'))"
  by (simp add: process_instances_def)

lemma process_instances_empty:
  "process_instances aws operation region [] invalid s =
     (if invalid = []
      then (\<lparr> statusCode = 400,
              body = [(''message'', JStr ''No valid EC2 instance IDs provided for processing.'')] \<rparr>, s)
      else (\<lparr> statusCode = 400,
              body = [(''message'', JStr ''All provided EC2 instance IDs had an invalid format.''),
                      (''invalid_instances'', JArr invalid)] \<rparr>, s))"
  by (simp add: process_instances_def)

lemma spec_pattern_regex: "spec_instance_id_pattern x \<Longrightarrow> instance_id_regex_match x"
  by (auto simp: spec_instance_id_pattern_def instance_id_regex_match_def Let_def)

lemma spec_pattern_nonempty: "spec_instance_id_pattern x \<Longrightarrow> x \<noteq> []"
  by (auto simp: spec_instance_id_pattern_def)

lemma count_list_filter_in: "P x \<Longrightarrow> count_list (filter P xs) x = count_list xs x"
  by (induction xs) auto

lemma count_list_filter_out: "\<not> P x \<Longrightarrow> count_list (filter P xs) x = 0"
  by (induction xs) auto

lemma count_list_map_inj: "inj f \<Longrightarrow> count_list (map f xs) (f x) = count_list xs x"
  by (induction xs) (auto dest: injD)

lemma count_list_invalid_entries:
  "count_list (map (entry_instance_id \<circ> invalid_format_entry) cs) (Some x) = count_list cs x"
  by (induction cs) auto

lemma count_list_op_call:
  "count_list (map (op_call operation) ids) (op_call operation x) = count_list ids x"
  by (induction ids) (auto simp: op_call_def)

lemma select_instances_eq:
  "select_instances operation is acc = acc @ map InstanceId (filter (spec_suitable operation) is)"
  by (induction "is" arbitrary: acc) (auto simp: spec_suitable_def)

lemma select_reservations_eq:
  "select_reservations operation rs acc
     = acc @ map InstanceId (filter (spec_suitable operation) (reservation_instances rs))"
  by (induction rs arbitrary: acc) (simp_all add: reservation_instances_def select_instances_eq)

lemma select_pages_eq:
  "select_pages operation pages acc
     = acc @ map InstanceId (filter (spec_suitable operation) (listed_instances pages))"
  by (induction pages arbitrary: acc)
     (simp_all add: listed_instances_def page_instances_def select_reservations_eq)

lemma process_all_listed:
  assumes "paginate_describe_instances aws w1 = (Inr pages, w2)"
  shows "process_all aws operation region (w1, tr) =
     (if select_pages operation pages [] = []
      then (\<lparr> statusCode = 200,
              body = [(''message'', JStr (''No instances found in suitable state for ''
                         @ quoted operation @ '' operation in region '' @ quoted region @ ''.'')),
                      (''operation'', JStr operation),
                      (''successful_instances'', JArr []),
                      (''failed_instances'', JArr [])] \<rparr>, (w2, tr @ [PaginateDescribeInstances]))
      else process_instances aws operation region (select_pages operation pages []) []
             (w2, tr @ [PaginateDescribeInstances]))"
  using assms by (simp add: process_all_def call_def Let_def)

lemma process_instances_run:
  assumes "ids \<noteq> []"
    and "operation = ''start'' \<or> operation = ''stop''"
    and "process_instances aws operation region ids invalid (w, tr) = (r, (w', calls))"
  shows "\<exists>succ new. r = final_response operation region succ (invalid @ new)
           \<and> calls = tr @ map (op_call operation) ids
           \<and> set succ \<subseteq> set ids
           \<and> (\<forall>e \<in> set new. \<exists>i \<in> set ids. \<exists>x. e = failure_entry i x)
           \<and> length succ + length new = length ids
           \<and> (new = [] \<longrightarrow> succ = ids)"
proof -
  obtain succ failed s2 where ro:
    "run_operations aws operation ids ([], invalid) (w, tr) = ((succ, failed), s2)"
    by (metis surj_pair)
  with assms have r: "r = final_response operation region succ failed" and s2: "s2 = (w', calls)"
    by (auto simp: process_instances_nonempty)
  from run_operations_failed_mono[OF ro] obtain new where
    new: "failed = invalid @ new" "\<forall>e \<in> set new. \<exists>i \<in> set ids. \<exists>x. e = failure_entry i x"
    by blast
  from run_operations_succ[OF ro] new(1) have succ: "set succ \<subseteq> set ids" "new = [] \<longrightarrow> succ = ids"
    by auto
  from run_operations_lengths[OF ro] new(1) have len: "length succ + length new = length ids"
    by simp
  have "calls = tr @ map (op_call operation) ids"
    using run_operations_calls[OF assms(2), of aws ids "[]" invalid "(w, tr)"] ro s2 by simp
  with r new succ len show ?thesis by blast
qed

lemma cleaned_token_regex:
  "c \<in> set (cleaned_tokens ts) \<Longrightarrow> instance_id_regex_match c = spec_instance_id_pattern c"
  by (auto simp: cleaned_tokens_def regex_match_stripped)

lemma cleaned_tokens_nonempty: "[] \<notin> set (cleaned_tokens ts)"
  by (simp add: cleaned_tokens_def)

lemma handler_invalid:
  "\<not> fields_valid event \<Longrightarrow> PowerCycle_lambda_handler aws event s = (r, s') \<Longrightarrow>
   s' = s \<and> statusCode r = 400 \<and> (\<exists>m. body r = [(''message'', JStr m)])"
  by (auto simp: PowerCycle_lambda_handler_def fields_valid_def Let_def split: if_splits)

lemma handler_client_fails:
  assumes "fields_valid event"
    and "ec2_client aws (request_region event) w = (Some e, w1)"
  shows "PowerCycle_lambda_handler aws event (w, tr) =
     (\<lparr> statusCode = 500,
        body = [(''message'', JStr (''Failed to initialize EC2 client for region ''
                   @ request_region event @ ''.''))] \<rparr>,
      (w1, tr @ [Ec2Client (request_region event)]))"
  using assms
  unfolding PowerCycle_lambda_handler_def fields_valid_def request_region_def Let_def call_def
  by (simp split: prod.splits)

lemma process_all_fails:
  assumes "paginate_describe_instances aws w1 = (Inl e, w2)"
    and "process_all aws operation region (w1, tr) = (r, s')"
  shows "s' = (w2, tr @ [PaginateDescribeInstances]) \<and> statusCode r = 500
       \<and> (\<exists>m. body r = [(''message'', JStr m)])"
  using assms by (cases e) (auto simp: process_all_def call_def)

lemma entry_shapes:
  "\<exists>i reason. invalid_format_entry c = JObj [(''instance_id'', JStr i), (''reason'', JStr reason)]"
  "\<exists>i reason. failure_entry c e = JObj [(''instance_id'', JStr i), (''reason'', JStr reason)]"
  by (simp_all add: invalid_format_entry_def failure_entry_def)

lemma process_instances_fields:
  assumes op: "operation = ''start'' \<or> operation = ''stop''"
    and shaped: "\<forall>e \<in> set invalid. \<exists>i reason.
                   e = JObj [(''instance_id'', JStr i), (''reason'', JStr reason)]"
    and loop_free: "\<forall>i. StartInstances i \<notin> set tr \<and> StopInstances i \<notin> set tr"
    and run: "process_instances aws operation region ids invalid (w, tr) = (r, (w', calls))"
  shows "(\<exists>m. map_of (body r) ''message'' = Some (JStr m))
       \<and> ((\<exists>i. StartInstances i \<in> set calls \<or> StopInstances i \<in> set calls) \<longrightarrow>
            (\<exists>succ failed.
               map_of (body r) ''operation'' = Some (JStr operation)
             \<and> map_of (body r) ''region'' = Some (JStr region)
             \<and> map_of (body r) ''successful_instances'' = Some (JArr (map JStr succ))
             \<and> map_of (body r) ''failed_instances'' = Some (JArr failed)
             \<and> (\<forall>e \<in> set failed. \<exists>i reason.
                    e = JObj [(''instance_id'', JStr i), (''reason'', JStr reason)])))"
proof (cases "ids = []")
  case True
  with run have "calls = tr" "\<exists>m. map_of (body r) ''message'' = Some (JStr m)"
    by (auto simp: process_instances_empty split: if_splits)
  with loop_free show ?thesis by simp
next
  case False
  from process_instances_run[OF False op run] obtain succ new where
    r: "r = final_response operation region succ (invalid @ new)"
    and new: "\<forall>e \<in> set new. \<exists>i \<in> set ids. \<exists>x. e = failure_entry i x"
    by blast
  have "\<forall>e \<in> set (invalid @ new). \<exists>i reason.
          e = JObj [(''instance_id'', JStr i), (''reason'', JStr reason)]"
    using shaped new entry_shapes(2) by (metis Un_iff set_append)
  then show ?thesis
    unfolding r using final_response_body[of operation region succ "invalid @ new"]
    by blast
qed

section \<open>UpdateDNS: the helper and the loop over the instances\<close>

lemma call_eq: "f (fst s) = (x, w') \<Longrightarrow> call c f s = (x, (w', snd s @ [c]))"
  by (simp add: call_def)

lemma do_dns_update_cases:
  "\<exists>result s'. do_dns_update aws z n ip ttl s = (Inr result, s')
     \<and> (\<exists>new. snd s' = snd s @ new)
     \<and> (result_status result = Some (JStr ''success'')
          \<or> result_status result = Some (JStr ''error''))"
  unfolding do_dns_update_def do_dns_update_try_def call_def Let_def result_status_def
  by (auto split: prod.splits option.splits sum.splits exn.splits json.splits)

lemma scan_tags_eq:
  "scan_tags ts (d, n) =
     ((case map_of (rev (map (\<lambda>t. (Key t, Value t)) ts)) ''PublicDNS'' of
         None \<Rightarrow> d | Some v \<Rightarrow> Some v),
      (case map_of (rev (map (\<lambda>t. (Key t, Value t)) ts)) ''Name'' of
         None \<Rightarrow> n | Some v \<Rightarrow> Some v))"
proof (induction ts arbitrary: d n)
  case Nil
  then show ?case by simp
next
  case (Cons t ts)
  have "Key t = ''PublicDNS'' \<Longrightarrow> Key t \<noteq> ''Name''" by auto
  then show ?case
    unfolding scan_tags.simps Cons.IH
    by (cases "Key t = ''PublicDNS''"; cases "Key t = ''Name''")
       (auto simp: map_add_def split: option.splits)
qed

lemma resolve_dns_name_order:
  "resolve_dns_name i =
     (if truthy (tag_value i ''PublicDNS'') then tag_value i ''PublicDNS''
      else if truthy (tag_value i ''Name'') then tag_value i ''Name''
      else None)"
  unfolding resolve_dns_name_def tag_value_def scan_tags_eq
  by (auto simp: truthy_def split: option.splits)

lemma resolve_dns_name_truthy: "resolve_dns_name i = Some name \<Longrightarrow> name \<noteq> []"
  unfolding resolve_dns_name_order by (auto simp: truthy_def split: if_splits option.splits)

lemma process_instance_unresolved:
  "resolve_dns_name i = None \<Longrightarrow>
   process_instance aws i results s = (Inl (Inr (no_dns_name_response i)), s)"
  by (simp add: process_instance_def)

lemma process_instance_resolved:
  assumes "resolve_dns_name i = Some name"
  shows "\<exists>x s'. process_instance aws i results s = (Inr (results @ [x]), s')
           \<and> (truthy (PublicIpAddress i) \<longrightarrow>
                 do_dns_update aws HOSTED_ZONE_ID name (the (PublicIpAddress i)) DNS_RECORD_TTL s
                   = (Inr x, s'))
           \<and> (\<not> truthy (PublicIpAddress i) \<longrightarrow>
                 s' = s \<and> result_status x = Some (JStr ''skipped''))"
proof (cases "truthy (PublicIpAddress i)")
  case True
  from do_dns_update_cases[of aws HOSTED_ZONE_ID name "the (PublicIpAddress i)" DNS_RECORD_TTL s]
  obtain x s' where
    "do_dns_update aws HOSTED_ZONE_ID name (the (PublicIpAddress i)) DNS_RECORD_TTL s = (Inr x, s')"
    by blast
  with assms True resolve_dns_name_truthy[OF assms] show ?thesis
    by (simp add: process_instance_def Let_def truthy_def)
next
  case False
  with assms show ?thesis
    by (simp add: process_instance_def Let_def skipped_entry_def result_status_def)
qed

lemma process_instances_sync_append:
  "process_instances_sync aws (xs @ ys) acc s =
     (case process_instances_sync aws xs acc s of
        (Inl r, s') \<Rightarrow> (Inl r, s')
      | (Inr acc', s') \<Rightarrow> process_instances_sync aws ys acc' s')"
proof (induction xs arbitrary: acc s)
  case Nil
  then show ?case by simp
next
  case (Cons x xs)
  obtain found results where acc: "acc = (found, results)" by (cases acc)
  show ?case
    unfolding acc using Cons.IH
    by (simp split: prod.splits sum.splits)
qed

lemma process_reservations_flat:
  "process_reservations aws rs acc s = process_instances_sync aws (reservation_instances rs) acc s"
proof (induction rs arbitrary: acc s)
  case Nil
  then show ?case by (simp add: reservation_instances_def)
next
  case (Cons r rs)
  have "reservation_instances (r # rs)
          = (case Instances r of None \<Rightarrow> [] | Some is \<Rightarrow> is) @ reservation_instances rs"
    by (simp add: reservation_instances_def)
  then show ?case
    using Cons.IH by (simp add: process_instances_sync_append split: prod.splits sum.splits)
qed

lemma process_instances_sync_resolved:
  "\<forall>i \<in> set is. resolve_dns_name i \<noteq> None \<Longrightarrow>
   \<exists>new s'. process_instances_sync aws is (found, results) s
               = (Inr (found \<or> is \<noteq> [], results @ new), s')
           \<and> length new = length is"
proof (induction "is" arbitrary: found results s)
  case Nil
  then show ?case by simp
next
  case (Cons i rest)
  then obtain name where "resolve_dns_name i = Some name" by auto
  from process_instance_resolved[OF this, of aws results s] obtain x s1 where
    step: "process_instance aws i results s = (Inr (results @ [x]), s1)" by blast
  from Cons.prems have "\<forall>j \<in> set rest. resolve_dns_name j \<noteq> None" by simp
  from Cons.IH[OF this, of True "results @ [x]" s1] obtain new s' where
    "process_instances_sync aws rest (True, results @ [x]) s1
       = (Inr (True \<or> rest \<noteq> [], (results @ [x]) @ new), s')" "length new = length rest"
    by blast
  with step show ?case
    by (intro exI[of _ "x # new"] exI[of _ s']) simp
qed

lemma process_instances_sync_outcome:
  "process_instances_sync aws is (found, results) s = (out, s') \<Longrightarrow>
   (case out of
      Inl (Inl e) \<Rightarrow> False
    | Inl (Inr r) \<Rightarrow> statusCode r = 400
    | Inr (found', results') \<Rightarrow>
        found' = (found \<or> is \<noteq> []) \<and> length results' = length results + length is)"
proof (induction "is" arbitrary: found results s)
  case Nil
  then show ?case by auto
next
  case (Cons i rest)
  show ?case
  proof (cases "resolve_dns_name i")
    case None
    with Cons.prems show ?thesis
      by (auto simp: process_instance_unresolved no_dns_name_response_def)
  next
    case (Some name)
    from process_instance_resolved[OF this, of aws results s] obtain x s1 where
      step: "process_instance aws i results s = (Inr (results @ [x]), s1)" by blast
    with Cons.prems have "process_instances_sync aws rest (True, results @ [x]) s1 = (out, s')"
      by simp
    from Cons.IH[OF this] show ?thesis
      by (auto split: sum.splits prod.splits)
  qed
qed

lemma handler_lookup:
  assumes valid: "sync_event_valid event"
    and client: "ec2_client aws (the (ev_region event)) w = (None, w1)"
    and describe: "describe_instances aws (the (event_instance_id event)) w1 = (Inr response, w2)"
  shows "UpdateDNS_lambda_handler aws event (w, tr) =
     (case process_instances_sync aws (page_instances response) (False, [])
             (w2, tr @ [Ec2Client (the (ev_region event)),
                        DescribeInstances (the (event_instance_id event))]) of
        (Inl (Inr r), s3) \<Rightarrow> (Inr r, s3)
      | (Inl (Inl e), s3) \<Rightarrow>
          (Inr \<lparr> statusCode = 500,
                 body = [(''status'', JStr ''error''),
                         (''message'', JStr (''An unexpected error occurred during execution: ''
                            @ str_exn e)),
                         (''instance_id'', JStr (the (event_instance_id event))),
                         (''region'', JStr (the (ev_region event))),
                         (''event'', event_json event)] \<rparr>, s3)
      | (Inr (found, results), s3) \<Rightarrow>
          if \<not> found
          then (Inr \<lparr> statusCode = 404,
                      body = [(''status'', JStr ''error''),
                              (''message'', JStr (''Instance with ID ''
                                 @ quoted (the (event_instance_id event))
                                 @ '' not found or could not be described.'')),
                              (''instance_id'', JStr (the (event_instance_id event))),
                              (''region'', JStr (the (ev_region event)))] \<rparr>, s3)
          else (Inr (aggregate (the (event_instance_id event)) (the (ev_region event)) results), s3))"
proof -
  from valid obtain i where d: "ev_detail event = None \<or> ev_detail event = Some (Detail i)"
    by (auto simp: sync_event_valid_def detail_readable_def split: option.splits detail_field.splits)
  from valid have t: "truthy (event_instance_id event)" "truthy (ev_region event)"
    by (auto simp: sync_event_valid_def)
  from t(1) d have d': "ev_detail event = Some (Detail i)" "event_instance_id event = i"
    by (auto simp: event_instance_id_def truthy_def)
  show ?thesis
    unfolding UpdateDNS_lambda_handler_def lambda_handler_try_def
    using t d' client describe
    by (simp add: call_def Let_def page_instances_def process_reservations_flat
          split: prod.splits sum.splits)
qed


lemma aggregate_fields:
  "statusCode (aggregate instance_id region results) = 200"
  "body_list (aggregate instance_id region results) ''updates'' = results"
  "map_of (body (aggregate instance_id region results)) ''status''
     = Some (JStr (if any_error results then ''partial_success_with_errors'' else ''success''))"
  "results \<noteq> [] \<Longrightarrow>
     map_of (body (aggregate instance_id region results)) ''message''
       = Some (JStr (if any_error results
                     then ''Some DNS updates failed. Check 'updates' for details.''
                     else ''DNS update process completed successfully.''))"
  by (simp_all add: aggregate_def Let_def body_list_def split: prod.splits)

section \<open>PowerCycle: the explicit list is not deduplicated\<close>

text \<open>
  Claim C9. For a request that passes field validation with an explicit list, once the
  EC2 client is built: a well-formed identifier \<open>x\<close> that is the trimmed value of \<open>k\<close>
  of the comma-separated tokens gets exactly \<open>k\<close> start or stop calls, and \<open>k\<close> entries
  across \<^verbatim>\<open>successful_instances\<close> and \<^verbatim>\<open>failed_instances\<close>, one per occurrence.
\<close>

theorem no_deduplication:
  assumes valid: "fields_valid event"
    and client: "ec2_client aws (request_region event) w = (None, w1)"
    and explicit: "str_lower (request_instances event) \<noteq> ''all''"
    and x: "spec_instance_id_pattern x"
    and run: "PowerCycle_lambda_handler aws event (w, []) = (r, (w', calls))"
  shows "count_list calls (op_call (request_operation event) x)
           = count_list (map str_strip (str_split (CHR '','') (request_instances event))) x
       \<and> count_list (body_list r ''successful_instances'') (JStr x)
           + count_list (map entry_instance_id (body_list r ''failed_instances'')) (Some x)
           = count_list (map str_strip (str_split (CHR '','') (request_instances event))) x"
proof -
  define tokens where "tokens = str_split (CHR '','') (request_instances event)"
  define ids where "ids = filter instance_id_regex_match (cleaned_tokens tokens)"
  define invalid where "invalid = map invalid_format_entry
      (filter (\<lambda>c. \<not> instance_id_regex_match c) (cleaned_tokens tokens))"
  define operation where "operation = request_operation event"
  define region where "region = request_region event"
  have op: "operation = ''start'' \<or> operation = ''stop''"
    using request_operation_valid[OF valid] operation_def by simp
  have k: "count_list ids x = count_list (map str_strip tokens) x"
    using x by (simp add: ids_def cleaned_tokens_def count_list_filter_in
        spec_pattern_regex spec_pattern_nonempty)
  have inv0: "count_list (map entry_instance_id invalid) (Some x) = 0"
    using x by (simp add: invalid_def count_list_invalid_entries count_list_filter_out
        spec_pattern_regex)
  have h: "process_instances aws operation region ids invalid (w1, [Ec2Client region])
             = (r, (w', calls))"
    using handler_resolved[OF valid client, of "[]"] explicit run
    by (simp add: validate_ids_eq tokens_def ids_def invalid_def operation_def region_def)
  show ?thesis
  proof (cases "ids = []")
    case True
    with h have "calls = [Ec2Client region]" "body_list r ''successful_instances'' = []"
      "body_list r ''failed_instances'' = []"
      by (auto simp: process_instances_empty body_list_def split: if_splits)
    with True k op show ?thesis
      by (auto simp: tokens_def op_call_def operation_def)
  next
    case False
    obtain succ failed s2 where ro:
      "run_operations aws operation ids ([], invalid) (w1, [Ec2Client region]) = ((succ, failed), s2)"
      by (metis surj_pair)
    with h False have r: "r = final_response operation region succ failed" and s2: "s2 = (w', calls)"
      by (auto simp: process_instances_nonempty)
    have "calls = [Ec2Client region] @ map (op_call operation) ids"
      using run_operations_calls[OF op, of aws ids "[]" invalid "(w1, [Ec2Client region])"] ro s2
      by simp
    then have c: "count_list calls (op_call operation x) = count_list ids x"
      by (simp add: count_list_op_call) (simp add: op_call_def)
    have "count_list succ x + count_list (map entry_instance_id failed) (Some x) = count_list ids x"
      using run_operations_counts[OF ro, of x] inv0 by simp
    moreover have "count_list (map JStr succ) (JStr x) = count_list succ x"
      by (simp add: count_list_map_inj inj_def)
    ultimately show ?thesis
      using c k by (simp add: r body_list_def final_response_body tokens_def operation_def)
  qed
qed


theorem no_deduplication_witness:
  "fields_valid (example_request ''stop'' ''i-0123456789abcdef0, bad ,i-0123456789abcdef0'')
   \<and> ec2_client (example_aws [] (\<lambda>i. None) change_ok)
       (request_region (example_request ''stop'' ''i-0123456789abcdef0, bad ,i-0123456789abcdef0'')) ()
       = (None, ())
   \<and> str_lower (request_instances
         (example_request ''stop'' ''i-0123456789abcdef0, bad ,i-0123456789abcdef0'')) \<noteq> ''all''
   \<and> spec_instance_id_pattern ''i-0123456789abcdef0''
   \<and> count_list (snd (snd (PowerCycle_lambda_handler (example_aws [] (\<lambda>i. None) change_ok)
          (example_request ''stop'' ''i-0123456789abcdef0, bad ,i-0123456789abcdef0'') ((), []))))
        (StopInstances ''i-0123456789abcdef0'') = 2
   \<and> count_list (body_list (fst (PowerCycle_lambda_handler (example_aws [] (\<lambda>i. None) change_ok)
          (example_request ''stop'' ''i-0123456789abcdef0, bad ,i-0123456789abcdef0'') ((), [])))
          ''successful_instances'') (JStr ''i-0123456789abcdef0'') = 2"
proof -
  define event where
    "event = example_request ''stop'' ''i-0123456789abcdef0, bad ,i-0123456789abcdef0''"
  define aws where "aws = example_aws [] (\<lambda>i. None) change_ok"
  have h1: "fields_valid event" unfolding event_def by code_simp
  have h2: "ec2_client aws (request_region event) () = (None, ())"
    unfolding aws_def by (simp add: example_aws_def)
  have h3: "str_lower (request_instances event) \<noteq> ''all''" unfolding event_def by code_simp
  have h4: "spec_instance_id_pattern ''i-0123456789abcdef0''" by code_simp
  have k: "count_list (map str_strip (str_split (CHR '','') (request_instances event)))
             ''i-0123456789abcdef0'' = 2"
    unfolding event_def by code_simp
  have o: "op_call (request_operation event) ''i-0123456789abcdef0''
             = StopInstances ''i-0123456789abcdef0''"
    unfolding event_def by code_simp
  have f: "count_list (map entry_instance_id
             (body_list (fst (PowerCycle_lambda_handler aws event ((), []))) ''failed_instances''))
             (Some ''i-0123456789abcdef0'') = 0"
    unfolding event_def aws_def by code_simp
  have "PowerCycle_lambda_handler aws event ((), [])
          = (fst (PowerCycle_lambda_handler aws event ((), [])),
             ((), snd (snd (PowerCycle_lambda_handler aws event ((), [])))))"
    by (simp add: prod_eq_iff)
  from no_deduplication[OF h1 h2 h3 h4 this] h1 h2 h3 h4 k o f
  show ?thesis unfolding event_def aws_def by simp
qed

section \<open>PowerCycle: the selector \<^verbatim>\<open>all\<close>\<close>

text \<open>
  Claim C5. For a request that passes field validation and whose instances are \<^verbatim>\<open>all\<close> in
  any letter case, once the EC2 client is built and the listing has returned: the
  instances processed are exactly the listed ones that are \<^verbatim>\<open>stopped\<close> or \<^verbatim>\<open>stopping\<close> for
  \<^verbatim>\<open>start\<close>, \<^verbatim>\<open>running\<close> or \<^verbatim>\<open>pending\<close> for \<^verbatim>\<open>stop\<close>, each called once and in the order
  listed; if there is none, the status is 200 and both result lists are empty.
\<close>

theorem all_selects_by_state:
  assumes valid: "fields_valid event"
    and client: "ec2_client aws (request_region event) w = (None, w1)"
    and all: "str_lower (request_instances event) = ''all''"
    and listing: "paginate_describe_instances aws w1 = (Inr pages, w2)"
    and run: "PowerCycle_lambda_handler aws event (w, []) = (r, (w', calls))"
  shows "select_pages (request_operation event) pages []
           = map InstanceId (filter (spec_suitable (request_operation event)) (listed_instances pages))
       \<and> calls = [Ec2Client (request_region event), PaginateDescribeInstances]
           @ map (op_call (request_operation event))
               (map InstanceId (filter (spec_suitable (request_operation event))
                  (listed_instances pages)))
       \<and> (filter (spec_suitable (request_operation event)) (listed_instances pages) = []
            \<longrightarrow> statusCode r = 200
              \<and> map_of (body r) ''successful_instances'' = Some (JArr [])
              \<and> map_of (body r) ''failed_instances'' = Some (JArr []))"
proof -
  define operation where "operation = request_operation event"
  define region where "region = request_region event"
  define ids where "ids = map InstanceId (filter (spec_suitable operation) (listed_instances pages))"
  have op: "operation = ''start'' \<or> operation = ''stop''"
    using request_operation_valid[OF valid] operation_def by simp
  have sel: "select_pages operation pages [] = ids"
    by (simp add: select_pages_eq ids_def)
  have h: "process_all aws operation region (w1, [Ec2Client region]) = (r, (w', calls))"
    using handler_resolved[OF valid client, of "[]"] all run
    by (simp add: operation_def region_def)
  show ?thesis
  proof (cases "ids = []")
    case True
    with h sel have "calls = [Ec2Client region, PaginateDescribeInstances]"
      "statusCode r = 200" "map_of (body r) ''successful_instances'' = Some (JArr [])"
      "map_of (body r) ''failed_instances'' = Some (JArr [])"
      by (auto simp: process_all_listed[OF listing])
    with True sel show ?thesis
      unfolding ids_def operation_def region_def by simp
  next
    case False
    with h sel have "process_instances aws operation region ids []
        (w2, [Ec2Client region, PaginateDescribeInstances]) = (r, (w', calls))"
      by (simp add: process_all_listed[OF listing])
    from process_instances_run[OF False op this]
    have "calls = [Ec2Client region, PaginateDescribeInstances] @ map (op_call operation) ids"
      by auto
    with False sel show ?thesis
      unfolding ids_def operation_def region_def by simp
  qed
qed


theorem all_selects_by_state_witness:
  "fields_valid (example_request ''start'' '' ALL '')
   \<and> str_lower (request_instances (example_request ''start'' '' ALL '')) = ''all''
   \<and> snd (snd (PowerCycle_lambda_handler
        (example_aws [example_page [example_instance ''i-0aaaaaaaaaaaaaaa1'' ''stopped'' [] None,
                                    example_instance ''i-0aaaaaaaaaaaaaaa2'' ''running'' [] None,
                                    example_instance ''i-0aaaaaaaaaaaaaaa3'' ''stopping'' [] None]]
           (\<lambda>i. None) change_ok)
        (example_request ''start'' '' ALL '') ((), [])))
     = [Ec2Client ''eu-west-1'', PaginateDescribeInstances,
        StartInstances ''i-0aaaaaaaaaaaaaaa1'', StartInstances ''i-0aaaaaaaaaaaaaaa3'']
   \<and> statusCode (fst (PowerCycle_lambda_handler
        (example_aws [example_page [example_instance ''i-0aaaaaaaaaaaaaaa2'' ''running'' [] None]]
           (\<lambda>i. None) change_ok)
        (example_request ''start'' '' ALL '') ((), []))) = 200
   \<and> map_of (body (fst (PowerCycle_lambda_handler
        (example_aws [example_page [example_instance ''i-0aaaaaaaaaaaaaaa2'' ''running'' [] None]]
           (\<lambda>i. None) change_ok)
        (example_request ''start'' '' ALL '') ((), [])))) ''failed_instances'' = Some (JArr [])"
proof -
  define event where "event = example_request ''start'' '' ALL ''"
  define pages where
    "pages = [example_page [example_instance ''i-0aaaaaaaaaaaaaaa1'' ''stopped'' [] None,
                            example_instance ''i-0aaaaaaaaaaaaaaa2'' ''running'' [] None,
                            example_instance ''i-0aaaaaaaaaaaaaaa3'' ''stopping'' [] None]]"
  define pages' where
    "pages' = [example_page [example_instance ''i-0aaaaaaaaaaaaaaa2'' ''running'' [] None]]"
  define aws where "aws = example_aws pages (\<lambda>i. None) change_ok"
  define aws' where "aws' = example_aws pages' (\<lambda>i. None) change_ok"
  have h1: "fields_valid event" unfolding event_def by code_simp
  have h2: "ec2_client aws (request_region event) () = (None, ())"
    "ec2_client aws' (request_region event) () = (None, ())"
    unfolding aws_def aws'_def by (simp_all add: example_aws_def)
  have h3: "str_lower (request_instances event) = ''all''" unfolding event_def by code_simp
  have h4: "paginate_describe_instances aws () = (Inr pages, ())"
    "paginate_describe_instances aws' () = (Inr pages', ())"
    unfolding aws_def aws'_def by (simp_all add: example_aws_def)
  have c: "PowerCycle_lambda_handler aws event ((), [])
          = (fst (PowerCycle_lambda_handler aws event ((), [])),
             ((), snd (snd (PowerCycle_lambda_handler aws event ((), [])))))"
    "PowerCycle_lambda_handler aws' event ((), [])
          = (fst (PowerCycle_lambda_handler aws' event ((), [])),
             ((), snd (snd (PowerCycle_lambda_handler aws' event ((), [])))))"
    by (simp_all add: prod_eq_iff)
  have e1: "[Ec2Client (request_region event), PaginateDescribeInstances]
           @ map (op_call (request_operation event))
               (map InstanceId (filter (spec_suitable (request_operation event))
                  (listed_instances pages)))
         = [Ec2Client ''eu-west-1'', PaginateDescribeInstances,
            StartInstances ''i-0aaaaaaaaaaaaaaa1'', StartInstances ''i-0aaaaaaaaaaaaaaa3'']"
    unfolding event_def pages_def by code_simp
  have e2: "filter (spec_suitable (request_operation event)) (listed_instances pages') = []"
    unfolding event_def pages'_def by code_simp
  from all_selects_by_state[OF h1 h2(1) h3 h4(1) c(1)] all_selects_by_state[OF h1 h2(2) h3 h4(2) c(2)]
    h1 h3 e1 e2
  show ?thesis unfolding event_def aws_def aws'_def pages_def pages'_def by simp
qed

section \<open>PowerCycle: the status code\<close>

text \<open>
  Claim C1, as amended. For a request that passes field validation, once the EC2 client is
  built and, for \<^verbatim>\<open>all\<close>, the listing has returned: with no instance to call the status is
  200 with both lists empty for \<^verbatim>\<open>all\<close>, and 400 for an explicit list (with the message
  that no valid identifier was provided when no format failure was recorded, and with the
  invalid identifiers listed otherwise); with at least one instance to call, the status
  after the loop is 500 when the successful list is empty (the failure list is then not
  empty) and 200 when it is not, in particular when every call succeeded. As stated the
  claim promises 400 whenever no instance remains to call, which the \<^verbatim>\<open>all\<close> branch
  contradicts: the counterexample is a request for \<^verbatim>\<open>all\<close> in a region without instances.
\<close>

theorem status_decision_table:
  assumes valid: "fields_valid event"
    and client: "ec2_client aws (request_region event) w = (None, w1)"
    and resolved:
      "if str_lower (request_instances event) = ''all''
       then \<exists>pages w2. paginate_describe_instances aws w1 = (Inr pages, w2)
              \<and> ids = select_pages (request_operation event) pages [] \<and> invalid = []
       else validate_ids (str_split (CHR '','') (request_instances event)) ([], []) = (ids, invalid)"
    and run: "PowerCycle_lambda_handler aws event (w, []) = (r, (w', calls))"
  shows "(ids = [] \<and> str_lower (request_instances event) = ''all'' \<longrightarrow>
            statusCode r = 200
            \<and> map_of (body r) ''successful_instances'' = Some (JArr [])
            \<and> map_of (body r) ''failed_instances'' = Some (JArr []))
       \<and> (ids = [] \<and> str_lower (request_instances event) \<noteq> ''all'' \<and> invalid = [] \<longrightarrow>
            statusCode r = 400
            \<and> map_of (body r) ''message''
                 = Some (JStr ''No valid EC2 instance IDs provided for processing.''))
       \<and> (ids = [] \<and> str_lower (request_instances event) \<noteq> ''all'' \<and> invalid \<noteq> [] \<longrightarrow>
            statusCode r = 400
            \<and> map_of (body r) ''invalid_instances'' = Some (JArr invalid))
       \<and> (ids \<noteq> [] \<longrightarrow>
            (\<exists>succ new.
               map_of (body r) ''successful_instances'' = Some (JArr (map JStr succ))
               \<and> map_of (body r) ''failed_instances'' = Some (JArr (invalid @ new))
               \<and> length succ + length new = length ids
               \<and> (succ = [] \<longrightarrow> invalid @ new \<noteq> [] \<and> statusCode r = 500)
               \<and> (succ \<noteq> [] \<longrightarrow> statusCode r = 200)
               \<and> (new = [] \<longrightarrow> succ = ids \<and> statusCode r = 200)))"
proof -
  define operation where "operation = request_operation event"
  define region where "region = request_region event"
  have op: "operation = ''start'' \<or> operation = ''stop''"
    using request_operation_valid[OF valid] operation_def by simp
  note h = handler_resolved[OF valid client, of "[]", folded operation_def region_def]
  have nonempty: "ids \<noteq> [] \<Longrightarrow>
     process_instances aws operation region ids invalid (w2, tr) = (r, (w', calls)) \<Longrightarrow>
     \<exists>succ new.
        map_of (body r) ''successful_instances'' = Some (JArr (map JStr succ))
        \<and> map_of (body r) ''failed_instances'' = Some (JArr (invalid @ new))
        \<and> length succ + length new = length ids
        \<and> (succ = [] \<longrightarrow> invalid @ new \<noteq> [] \<and> statusCode r = 500)
        \<and> (succ \<noteq> [] \<longrightarrow> statusCode r = 200)
        \<and> (new = [] \<longrightarrow> succ = ids \<and> statusCode r = 200)" for w2 tr
  proof -
    assume ne: "ids \<noteq> []"
      and p: "process_instances aws operation region ids invalid (w2, tr) = (r, (w', calls))"
    from process_instances_run[OF ne op p] obtain succ new where
      r: "r = final_response operation region succ (invalid @ new)"
      and len: "length succ + length new = length ids"
      and all_ok: "new = [] \<longrightarrow> succ = ids"
      by blast
    from len ne have "succ = [] \<longrightarrow> new \<noteq> []" by auto
    with r len all_ok ne show ?thesis
      by (intro exI[of _ succ] exI[of _ new])
         (auto simp: final_response_body final_response_status)
  qed
  show ?thesis
  proof (cases "str_lower (request_instances event) = ''all''")
    case True
    with resolved obtain pages w2 where
      listing: "paginate_describe_instances aws w1 = (Inr pages, w2)"
      and ids: "ids = select_pages operation pages []" and inv: "invalid = []"
      unfolding operation_def by auto
    from h True run have pa: "process_all aws operation region (w1, [Ec2Client region]) = (r, (w', calls))"
      by simp
    show ?thesis
    proof (cases "ids = []")
      case e: True
      with pa ids have "statusCode r = 200"
        "map_of (body r) ''successful_instances'' = Some (JArr [])"
        "map_of (body r) ''failed_instances'' = Some (JArr [])"
        by (auto simp: process_all_listed[OF listing])
      with e True show ?thesis by simp
    next
      case ne: False
      with pa ids inv have "process_instances aws operation region ids invalid
          (w2, [Ec2Client region, PaginateDescribeInstances]) = (r, (w', calls))"
        by (simp add: process_all_listed[OF listing])
      from nonempty[OF ne this] ne True show ?thesis by simp
    qed
  next
    case False
    with resolved have v: "validate_ids (str_split (CHR '','') (request_instances event)) ([], [])
        = (ids, invalid)" by simp
    with h False run have pi: "process_instances aws operation region ids invalid
        (w1, [Ec2Client region]) = (r, (w', calls))"
      by simp
    show ?thesis
    proof (cases "ids = []")
      case e: True
      with pi have "statusCode r = 400"
        "invalid = [] \<longrightarrow> map_of (body r) ''message''
                 = Some (JStr ''No valid EC2 instance IDs provided for processing.'')"
        "invalid \<noteq> [] \<longrightarrow> map_of (body r) ''invalid_instances'' = Some (JArr invalid)"
        by (auto simp: process_instances_empty split: if_splits)
      with e False show ?thesis by simp
    next
      case ne: False
      from nonempty[OF ne pi] ne False show ?thesis by simp
    qed
  qed
qed


theorem status_decision_table_witness:
  "fields_valid (example_request ''stop'' ''i-0123456789abcdef0,bad-id'')
   \<and> str_lower (request_instances (example_request ''stop'' ''i-0123456789abcdef0,bad-id''))
        \<noteq> ''all''
   \<and> validate_ids (str_split (CHR '','')
          (request_instances (example_request ''stop'' ''i-0123456789abcdef0,bad-id''))) ([], [])
        = ([''i-0123456789abcdef0''], [invalid_format_entry ''bad-id''])
   \<and> statusCode (fst (PowerCycle_lambda_handler (example_aws [] (\<lambda>i. None) change_ok)
          (example_request ''stop'' ''i-0123456789abcdef0,bad-id'') ((), []))) = 200
   \<and> statusCode (fst (PowerCycle_lambda_handler
          (example_aws [] (\<lambda>i. Some (OtherException ''timeout'')) change_ok)
          (example_request ''stop'' ''i-0123456789abcdef0,bad-id'') ((), []))) = 500"
proof -
  define event where "event = example_request ''stop'' ''i-0123456789abcdef0,bad-id''"
  define aws where "aws = example_aws [] (\<lambda>i. None) change_ok"
  define aws' where "aws' = example_aws [] (\<lambda>i. Some (OtherException ''timeout'')) change_ok"
  define r where "r = fst (PowerCycle_lambda_handler aws event ((), []))"
  define r' where "r' = fst (PowerCycle_lambda_handler aws' event ((), []))"
  have h1: "fields_valid event" unfolding event_def by code_simp
  have h2: "ec2_client aws (request_region event) () = (None, ())"
    "ec2_client aws' (request_region event) () = (None, ())"
    unfolding aws_def aws'_def by (simp_all add: example_aws_def)
  have h3: "str_lower (request_instances event) \<noteq> ''all''" unfolding event_def by code_simp
  have h4: "validate_ids (str_split (CHR '','') (request_instances event)) ([], [])
              = ([''i-0123456789abcdef0''], [invalid_format_entry ''bad-id''])"
    unfolding event_def by code_simp
  have res: "if str_lower (request_instances event) = ''all''
       then \<exists>pages w2. paginate_describe_instances a () = (Inr pages, w2)
              \<and> [''i-0123456789abcdef0''] = select_pages (request_operation event) pages []
              \<and> [invalid_format_entry ''bad-id''] = []
       else validate_ids (str_split (CHR '','') (request_instances event)) ([], [])
              = ([''i-0123456789abcdef0''], [invalid_format_entry ''bad-id''])" for a :: "unit aws"
    using h3 h4 by simp
  have c: "PowerCycle_lambda_handler aws event ((), [])
             = (r, ((), snd (snd (PowerCycle_lambda_handler aws event ((), [])))))"
    "PowerCycle_lambda_handler aws' event ((), [])
             = (r', ((), snd (snd (PowerCycle_lambda_handler aws' event ((), [])))))"
    unfolding r_def r'_def by (simp_all add: prod_eq_iff)
  have e: "map_of (body r) ''successful_instances'' = Some (JArr [JStr ''i-0123456789abcdef0''])"
    "map_of (body r') ''successful_instances'' = Some (JArr [])"
    unfolding r_def r'_def event_def aws_def aws'_def by code_simp+
  from status_decision_table[OF h1 h2(1) res c(1)] e(1) have "statusCode r = 200"
    by auto
  moreover from status_decision_table[OF h1 h2(2) res c(2)] e(2) have "statusCode r' = 500"
    by auto
  ultimately show ?thesis
    using h1 h3 h4 unfolding r_def r'_def event_def aws_def aws'_def by simp
qed

theorem status_decision_table_counterexample:
  "fields_valid (example_request ''start'' ''all'')
   \<and> select_pages (request_operation (example_request ''start'' ''all'')) [] [] = []
   \<and> statusCode (fst (PowerCycle_lambda_handler (example_aws [] (\<lambda>i. None) change_ok)
          (example_request ''start'' ''all'') ((), []))) = 200
   \<and> statusCode (fst (PowerCycle_lambda_handler (example_aws [] (\<lambda>i. None) change_ok)
          (example_request ''start'' ''all'') ((), []))) \<noteq> 400"
  by code_simp

section \<open>PowerCycle: tokens of the wrong format\<close>

text \<open>
  Claim C4, as amended. For a request that passes field validation with an explicit list,
  once the EC2 client is built: a token that is not empty after trimming and is not
  \<^verbatim>\<open>i-\<close> followed by exactly 17 lowercase hexadecimal characters gets no start or stop
  call, and is reported with the invalid-format reason, in \<^verbatim>\<open>failed_instances\<close> of the
  final response when some token is well formed, and in \<^verbatim>\<open>invalid_instances\<close> of a 400
  response, which has no \<^verbatim>\<open>failed_instances\<close>, when none is. A token that is empty after
  trimming leaves nothing behind: no call and no entry for the empty identifier. As stated
  the claim puts every such token in \<^verbatim>\<open>failed_instances\<close>; the counterexample is the list
  made of the one token \<^verbatim>\<open>bad-id\<close>.
\<close>

theorem invalid_tokens_reported:
  assumes valid: "fields_valid event"
    and client: "ec2_client aws (request_region event) w = (None, w1)"
    and explicit: "str_lower (request_instances event) \<noteq> ''all''"
    and run: "PowerCycle_lambda_handler aws event (w, []) = (r, (w', calls))"
    and token: "t \<in> set (str_split (CHR '','') (request_instances event))"
    and nonempty: "str_strip t \<noteq> []"
    and bad: "\<not> spec_instance_id_pattern (str_strip t)"
  shows "StartInstances (str_strip t) \<notin> set calls \<and> StopInstances (str_strip t) \<notin> set calls
       \<and> (if \<exists>u \<in> set (str_split (CHR '','') (request_instances event)).
               spec_instance_id_pattern (str_strip u)
          then invalid_format_entry (str_strip t) \<in> set (body_list r ''failed_instances'')
          else statusCode r = 400
             \<and> map_of (body r) ''failed_instances'' = None
             \<and> invalid_format_entry (str_strip t) \<in> set (body_list r ''invalid_instances''))
       \<and> StartInstances [] \<notin> set calls \<and> StopInstances [] \<notin> set calls
       \<and> JStr [] \<notin> set (body_list r ''successful_instances'')
       \<and> Some [] \<notin> entry_instance_id `
            set (body_list r ''failed_instances'' @ body_list r ''invalid_instances'')"
proof -
  define tokens where "tokens = str_split (CHR '','') (request_instances event)"
  define cl where "cl = cleaned_tokens tokens"
  define ids where "ids = filter instance_id_regex_match cl"
  define invalid where "invalid = map invalid_format_entry
      (filter (\<lambda>c. \<not> instance_id_regex_match c) cl)"
  define operation where "operation = request_operation event"
  define region where "region = request_region event"
  define c where "c = str_strip t"
  have op: "operation = ''start'' \<or> operation = ''stop''"
    using request_operation_valid[OF valid] operation_def by simp
  have c_cl: "c \<in> set cl"
    using token nonempty by (auto simp: cl_def cleaned_tokens_def tokens_def c_def)
  have c_bad: "\<not> instance_id_regex_match c"
    using bad regex_match_stripped[of t] c_def by simp
  have c_ids: "c \<notin> set ids" using c_bad by (simp add: ids_def)
  have c_inv: "invalid_format_entry c \<in> set invalid"
    using c_cl c_bad by (auto simp: invalid_def)
  have e_ids: "[] \<notin> set ids" using cleaned_tokens_nonempty by (auto simp: ids_def cl_def)
  have e_inv: "Some [] \<notin> entry_instance_id ` set invalid"
    using cleaned_tokens_nonempty by (auto simp: invalid_def cl_def)
  have some_valid: "(\<exists>u \<in> set tokens. spec_instance_id_pattern (str_strip u)) = (ids \<noteq> [])"
  proof
    assume "\<exists>u \<in> set tokens. spec_instance_id_pattern (str_strip u)"
    then obtain u where u: "u \<in> set tokens" "spec_instance_id_pattern (str_strip u)" by blast
    then have "str_strip u \<in> set cl"
      by (auto simp: cl_def cleaned_tokens_def dest: spec_pattern_nonempty)
    with u(2) have "str_strip u \<in> set ids" by (simp add: ids_def spec_pattern_regex)
    then show "ids \<noteq> []" by auto
  next
    assume "ids \<noteq> []"
    then obtain x where "x \<in> set ids" by (cases ids) auto
    then have x: "x \<in> set cl" "instance_id_regex_match x" by (auto simp: ids_def)
    then obtain u where "u \<in> set tokens" "x = str_strip u"
      by (auto simp: cl_def cleaned_tokens_def)
    with x show "\<exists>u \<in> set tokens. spec_instance_id_pattern (str_strip u)"
      using regex_match_stripped by blast
  qed
  have h: "process_instances aws operation region ids invalid (w1, [Ec2Client region])
             = (r, (w', calls))"
    using handler_resolved[OF valid client, of "[]"] explicit run
    by (simp add: validate_ids_eq tokens_def cl_def ids_def invalid_def operation_def region_def)
  have inv_ne: "invalid \<noteq> []" using c_inv by auto
  show ?thesis
  proof (cases "ids = []")
    case True
    with h inv_ne have "calls = [Ec2Client region]" "statusCode r = 400"
      "map_of (body r) ''failed_instances'' = None"
      "body_list r ''invalid_instances'' = invalid"
      "body_list r ''failed_instances'' = []" "body_list r ''successful_instances'' = []"
      by (auto simp: process_instances_empty body_list_def)
    with True c_inv e_inv some_valid show ?thesis
      unfolding c_def[symmetric] tokens_def[symmetric] by simp
  next
    case False
    from process_instances_run[OF False op h] obtain succ new where
      r: "r = final_response operation region succ (invalid @ new)"
      and calls: "calls = [Ec2Client region] @ map (op_call operation) ids"
      and succ: "set succ \<subseteq> set ids"
      and new: "\<forall>e \<in> set new. \<exists>i \<in> set ids. \<exists>x. e = failure_entry i x"
      by blast
    have lists: "body_list r ''failed_instances'' = invalid @ new"
      "body_list r ''successful_instances'' = map JStr succ"
      "body_list r ''invalid_instances'' = []"
      by (simp_all add: r body_list_def final_response_body)
         (simp add: final_response_def Let_def split: prod.splits)
    have e_new: "Some [] \<notin> entry_instance_id ` set new"
    proof
      assume "Some [] \<in> entry_instance_id ` set new"
      then obtain e where "e \<in> set new" "entry_instance_id e = Some []" by force
      with new obtain i x where "i \<in> set ids" "e = failure_entry i x" by blast
      with \<open>entry_instance_id e = Some []\<close> e_ids show False by simp
    qed
    have "StartInstances c \<notin> set calls" "StopInstances c \<notin> set calls"
      "StartInstances [] \<notin> set calls" "StopInstances [] \<notin> set calls"
      using calls c_ids e_ids by (auto simp: op_call_def split: if_splits)
    moreover have "JStr [] \<notin> set (map JStr succ)" using succ e_ids by auto
    ultimately show ?thesis
      using False c_inv e_inv e_new some_valid lists
      unfolding c_def[symmetric] tokens_def[symmetric] by (simp add: image_Un)
  qed
qed


theorem invalid_tokens_reported_witness:
  "fields_valid (example_request ''stop'' ''i-0123456789abcdef0, bad-id ,'')
   \<and> str_lower (request_instances (example_request ''stop'' ''i-0123456789abcdef0, bad-id ,''))
        \<noteq> ''all''
   \<and> '' bad-id '' \<in> set (str_split (CHR '','')
          (request_instances (example_request ''stop'' ''i-0123456789abcdef0, bad-id ,'')))
   \<and> str_strip '' bad-id '' = ''bad-id''
   \<and> \<not> spec_instance_id_pattern ''bad-id''
   \<and> StopInstances ''bad-id'' \<notin> set (snd (snd (PowerCycle_lambda_handler
          (example_aws [] (\<lambda>i. None) change_ok)
          (example_request ''stop'' ''i-0123456789abcdef0, bad-id ,'') ((), []))))
   \<and> invalid_format_entry ''bad-id'' \<in> set (body_list (fst (PowerCycle_lambda_handler
          (example_aws [] (\<lambda>i. None) change_ok)
          (example_request ''stop'' ''i-0123456789abcdef0, bad-id ,'') ((), [])))
          ''failed_instances'')
   \<and> invalid_format_entry ''bad-id'' \<in> set (body_list (fst (PowerCycle_lambda_handler
          (example_aws [] (\<lambda>i. None) change_ok)
          (example_request ''stop'' ''bad-id'') ((), [])))
          ''invalid_instances'')"
proof -
  define event where "event = example_request ''stop'' ''i-0123456789abcdef0, bad-id ,''"
  define event' where "event' = example_request ''stop'' ''bad-id''"
  define aws where "aws = example_aws [] (\<lambda>i. None) change_ok"
  have h1: "fields_valid event" "fields_valid event'"
    unfolding event_def event'_def by code_simp+
  have h2: "ec2_client aws (request_region event) () = (None, ())"
    "ec2_client aws (request_region event') () = (None, ())"
    unfolding aws_def by (simp_all add: example_aws_def)
  have h3: "str_lower (request_instances event) \<noteq> ''all''"
    "str_lower (request_instances event') \<noteq> ''all''"
    unfolding event_def event'_def by code_simp+
  have c: "PowerCycle_lambda_handler aws event ((), [])
             = (fst (PowerCycle_lambda_handler aws event ((), [])),
                ((), snd (snd (PowerCycle_lambda_handler aws event ((), [])))))"
    "PowerCycle_lambda_handler aws event' ((), [])
             = (fst (PowerCycle_lambda_handler aws event' ((), [])),
                ((), snd (snd (PowerCycle_lambda_handler aws event' ((), [])))))"
    by (simp_all add: prod_eq_iff)
  have h5: "'' bad-id '' \<in> set (str_split (CHR '','') (request_instances event))"
    "''bad-id'' \<in> set (str_split (CHR '','') (request_instances event'))"
    unfolding event_def event'_def by code_simp+
  have s: "str_strip '' bad-id '' = ''bad-id''" "str_strip ''bad-id'' = ''bad-id''"
    by code_simp+
  have h6: "str_strip '' bad-id '' \<noteq> []" "str_strip ''bad-id'' \<noteq> []"
    by code_simp+
  have h7: "\<not> spec_instance_id_pattern (str_strip '' bad-id '')"
    "\<not> spec_instance_id_pattern (str_strip ''bad-id'')"
    by code_simp+
  have v: "\<exists>u \<in> set (str_split (CHR '','') (request_instances event)).
             spec_instance_id_pattern (str_strip u)"
    "\<not> (\<exists>u \<in> set (str_split (CHR '','') (request_instances event')).
             spec_instance_id_pattern (str_strip u))"
    unfolding event_def event'_def by code_simp+
  from invalid_tokens_reported[OF h1(1) h2(1) h3(1) c(1) h5(1) h6(1) h7(1)]
    invalid_tokens_reported[OF h1(2) h2(2) h3(2) c(2) h5(2) h6(2) h7(2)]
    v s h1 h3 h5 h7
  show ?thesis unfolding event_def event'_def aws_def by simp
qed

theorem invalid_tokens_reported_counterexample:
  "fields_valid (example_request ''stop'' ''bad-id'')
   \<and> str_lower (request_instances (example_request ''stop'' ''bad-id'')) \<noteq> ''all''
   \<and> ''bad-id'' \<in> set (str_split (CHR '','') (request_instances (example_request ''stop'' ''bad-id'')))
   \<and> str_strip ''bad-id'' \<noteq> []
   \<and> \<not> spec_instance_id_pattern (str_strip ''bad-id'')
   \<and> map_of (body (fst (PowerCycle_lambda_handler (example_aws [] (\<lambda>i. None) change_ok)
          (example_request ''stop'' ''bad-id'') ((), [])))) ''failed_instances'' = None
   \<and> body (fst (PowerCycle_lambda_handler (example_aws [] (\<lambda>i. None) change_ok)
          (example_request ''stop'' ''bad-id'') ((), [])))
       = [(''message'', JStr ''All provided EC2 instance IDs had an invalid format.''),
          (''invalid_instances'', JArr [invalid_format_entry ''bad-id''])]"
  by code_simp

section \<open>PowerCycle: the fields of a response\<close>

text \<open>
  Claim C8, as amended. Every response of the PowerCycle handler has a \<^verbatim>\<open>message\<close>; every
  response returned after at least one start or stop call was issued has all five
  fields: \<^verbatim>\<open>message\<close>, \<^verbatim>\<open>operation\<close>, \<^verbatim>\<open>region\<close>, \<^verbatim>\<open>successful_instances\<close> (a list of
  identifiers) and \<^verbatim>\<open>failed_instances\<close> (a list of entries made of an \<^verbatim>\<open>instance_id\<close> and a
  \<^verbatim>\<open>reason\<close>). As stated the claim gives the five fields to every response; the
  counterexample is the empty event, whose 400 response carries a message and nothing else.
\<close>

theorem response_fields:
  assumes run: "PowerCycle_lambda_handler aws event (w, []) = (r, (w', calls))"
  shows "(\<exists>m. map_of (body r) ''message'' = Some (JStr m))
       \<and> ((\<exists>i. StartInstances i \<in> set calls \<or> StopInstances i \<in> set calls) \<longrightarrow>
            (\<exists>operation region succ failed.
               map_of (body r) ''operation'' = Some (JStr operation)
             \<and> map_of (body r) ''region'' = Some (JStr region)
             \<and> map_of (body r) ''successful_instances'' = Some (JArr (map JStr succ))
             \<and> map_of (body r) ''failed_instances'' = Some (JArr failed)
             \<and> (\<forall>e \<in> set failed. \<exists>i reason.
                    e = JObj [(''instance_id'', JStr i), (''reason'', JStr reason)])))"
proof (cases "fields_valid event")
  case False
  from handler_invalid[OF False run] show ?thesis by auto
next
  case valid: True
  define operation where "operation = request_operation event"
  define region where "region = request_region event"
  have op: "operation = ''start'' \<or> operation = ''stop''"
    using request_operation_valid[OF valid] operation_def by simp
  obtain c w1 where cl: "ec2_client aws region w = (c, w1)" by (metis surj_pair)
  show ?thesis
  proof (cases c)
    case (Some e)
    with cl handler_client_fails[OF valid, of aws w e w1 "[]"] run show ?thesis
      by (auto simp: region_def)
  next
    case None
    with cl have client: "ec2_client aws (request_region event) w = (None, w1)"
      by (simp add: region_def)
    note h = handler_resolved[OF valid client, of "[]", folded operation_def region_def]
    show ?thesis
    proof (cases "str_lower (request_instances event) = ''all''")
      case all: True
      with h run have pa: "process_all aws operation region (w1, [Ec2Client region]) = (r, (w', calls))"
        by simp
      obtain l w2 where li: "paginate_describe_instances aws w1 = (l, w2)" by (metis surj_pair)
      show ?thesis
      proof (cases l)
        case (Inl e)
        with li process_all_fails[OF _ pa] show ?thesis by auto
      next
        case (Inr pages)
        with li have listing: "paginate_describe_instances aws w1 = (Inr pages, w2)" by simp
        show ?thesis
        proof (cases "select_pages operation pages [] = []")
          case True
          with pa show ?thesis by (auto simp: process_all_listed[OF listing])
        next
          case False
          with pa have "process_instances aws operation region (select_pages operation pages []) []
              (w2, [Ec2Client region, PaginateDescribeInstances]) = (r, (w', calls))"
            by (simp add: process_all_listed[OF listing])
          from process_instances_fields[OF op _ _ this] show ?thesis by auto
        qed
      qed
    next
      case False
      with h run have "process_instances aws operation region
          (fst (validate_ids (str_split (CHR '','') (request_instances event)) ([], [])))
          (snd (validate_ids (str_split (CHR '','') (request_instances event)) ([], [])))
          (w1, [Ec2Client region]) = (r, (w', calls))"
        by simp
      from process_instances_fields[OF op _ _ this] show ?thesis
        by (auto simp: validate_ids_eq entry_shapes)
    qed
  qed
qed

theorem response_fields_witness:
  "StopInstances ''i-0123456789abcdef0'' \<in> set (snd (snd (PowerCycle_lambda_handler
      (example_aws [] (\<lambda>i. None) change_ok)
      (example_request ''stop'' ''i-0123456789abcdef0,bad-id'') ((), []))))
   \<and> map fst (body (fst (PowerCycle_lambda_handler
      (example_aws [] (\<lambda>i. None) change_ok)
      (example_request ''stop'' ''i-0123456789abcdef0,bad-id'') ((), []))))
     = [''message'', ''operation'', ''successful_instances'', ''failed_instances'', ''region'']
   \<and> (\<exists>operation region succ failed.
         map_of (body (fst (PowerCycle_lambda_handler
            (example_aws [] (\<lambda>i. None) change_ok)
            (example_request ''stop'' ''i-0123456789abcdef0,bad-id'') ((), [])))) ''region''
           = Some (JStr region))"
proof -
  define event where "event = example_request ''stop'' ''i-0123456789abcdef0,bad-id''"
  define aws where "aws = example_aws [] (\<lambda>i. None) change_ok"
  have c: "PowerCycle_lambda_handler aws event ((), [])
             = (fst (PowerCycle_lambda_handler aws event ((), [])),
                ((), snd (snd (PowerCycle_lambda_handler aws event ((), [])))))"
    by (simp add: prod_eq_iff)
  have k: "StopInstances ''i-0123456789abcdef0''
             \<in> set (snd (snd (PowerCycle_lambda_handler aws event ((), []))))"
    unfolding event_def aws_def by code_simp
  have f: "map fst (body (fst (PowerCycle_lambda_handler aws event ((), []))))
     = [''message'', ''operation'', ''successful_instances'', ''failed_instances'', ''region'']"
    unfolding event_def aws_def by code_simp
  from response_fields[OF c] k f show ?thesis
    unfolding event_def aws_def by blast
qed

theorem response_fields_counterexample:
  "body (fst (PowerCycle_lambda_handler (example_aws [] (\<lambda>i. None) change_ok) [] ((), [])))
     = [(''message'', JStr ''Missing or invalid 'region' in event.'')]
   \<and> map_of (body (fst (PowerCycle_lambda_handler (example_aws [] (\<lambda>i. None) change_ok) []
        ((), [])))) ''operation'' = None
   \<and> map_of (body (fst (PowerCycle_lambda_handler (example_aws [] (\<lambda>i. None) change_ok) []
        ((), [])))) ''successful_instances'' = None"
  by code_simp

section \<open>UpdateDNS: the upsert helper\<close>

text \<open>
  Claim C7. For every zone identifier, name, address and TTL, and whatever the Route 53
  client does, \<^verbatim>\<open>do_dns_update\<close> returns a result and raises nothing: the result has
  status \<^verbatim>\<open>success\<close> or \<^verbatim>\<open>error\<close>; when the change call returns, the status is
  \<^verbatim>\<open>success\<close> and the result carries the change information; when the call raises a
  \<^verbatim>\<open>ClientError\<close>, the status is \<^verbatim>\<open>error\<close> and the result carries the error's code and
  message.
\<close>

theorem do_dns_update_never_raises:
  "\<exists>result s'. do_dns_update aws z n ip ttl s = (Inr result, s')
     \<and> (result_status result = Some (JStr ''success'')
          \<or> result_status result = Some (JStr ''error''))
     \<and> (\<forall>w1 response w2 kvs.
           route53_client aws (fst s) = (None, w1)
           \<and> change_resource_record_sets aws z n ip ttl w1 = (Inr response, w2)
           \<and> (case map_of response ''ChangeInfo'' of None \<Rightarrow> JObj [] | Some v \<Rightarrow> v) = JObj kvs
           \<longrightarrow> result_status result = Some (JStr ''success'')
             \<and> result_field result ''change_info'' = Some (JObj kvs))
     \<and> (\<forall>w1 error_code error_message es w2.
           route53_client aws (fst s) = (None, w1)
           \<and> change_resource_record_sets aws z n ip ttl w1
                = (Inl (ClientError error_code error_message es), w2)
           \<longrightarrow> result_status result = Some (JStr ''error'')
             \<and> result_field result ''error_code'' = Some (json_opt error_code)
             \<and> result_field result ''error_message'' = Some (json_opt error_message))"
  unfolding do_dns_update_def do_dns_update_try_def call_def Let_def result_status_def
    result_field_def
  by (auto split: prod.splits option.splits sum.splits exn.splits json.splits)

theorem do_dns_update_never_raises_witness:
  "result_status (projr (fst (do_dns_update (example_aws [] (\<lambda>i. None) change_ok)
       HOSTED_ZONE_ID ''host1'' ''1.2.3.4'' DNS_RECORD_TTL ((), [])))) = Some (JStr ''success'')
   \<and> result_field (projr (fst (do_dns_update
       (example_aws [] (\<lambda>i. None) (Inl (ClientError (Some ''Throttling'') (Some ''Rate exceeded'') [])))
       HOSTED_ZONE_ID ''host1'' ''1.2.3.4'' DNS_RECORD_TTL ((), [])))) ''error_code''
       = Some (JStr ''Throttling'')"
proof -
  define aws where "aws = example_aws [] (\<lambda>i. None) change_ok"
  define aws' where "aws' = example_aws [] (\<lambda>i. None)
      (Inl (ClientError (Some ''Throttling'') (Some ''Rate exceeded'') []))"
  define info where "info = [(''Id'', JStr ''/change/C2682N5HXP0BZ4''), (''Status'', JStr ''PENDING'')]"
  have a: "route53_client aws (fst ((), []::api_call list)) = (None, ())
     \<and> change_resource_record_sets aws HOSTED_ZONE_ID ''host1'' ''1.2.3.4'' DNS_RECORD_TTL ()
         = (Inr [(''ChangeInfo'', JObj info)], ())
     \<and> (case map_of [(''ChangeInfo'', JObj info)] ''ChangeInfo'' of None \<Rightarrow> JObj [] | Some v \<Rightarrow> v)
         = JObj info"
    unfolding aws_def info_def by (simp add: example_aws_def change_ok_def)
  have a': "route53_client aws' (fst ((), []::api_call list)) = (None, ())
     \<and> change_resource_record_sets aws' HOSTED_ZONE_ID ''host1'' ''1.2.3.4'' DNS_RECORD_TTL ()
         = (Inl (ClientError (Some ''Throttling'') (Some ''Rate exceeded'') []), ())"
    unfolding aws'_def by (simp add: example_aws_def)
  from do_dns_update_never_raises[of aws HOSTED_ZONE_ID "''host1''" "''1.2.3.4''"
      DNS_RECORD_TTL "((), [])"]
  obtain result s' where
    r: "do_dns_update aws HOSTED_ZONE_ID ''host1'' ''1.2.3.4'' DNS_RECORD_TTL ((), [])
          = (Inr result, s')"
    and ok: "\<forall>w1 response w2 kvs.
           route53_client aws (fst ((), []::api_call list)) = (None, w1)
           \<and> change_resource_record_sets aws HOSTED_ZONE_ID ''host1'' ''1.2.3.4'' DNS_RECORD_TTL w1
                = (Inr response, w2)
           \<and> (case map_of response ''ChangeInfo'' of None \<Rightarrow> JObj [] | Some v \<Rightarrow> v) = JObj kvs
           \<longrightarrow> result_status result = Some (JStr ''success'')
             \<and> result_field result ''change_info'' = Some (JObj kvs)"
    by blast
  from ok a r
  have one: "result_status (projr (fst (do_dns_update aws HOSTED_ZONE_ID ''host1'' ''1.2.3.4''
      DNS_RECORD_TTL ((), [])))) = Some (JStr ''success'')"
    by force
  from do_dns_update_never_raises[of aws' HOSTED_ZONE_ID "''host1''" "''1.2.3.4''"
      DNS_RECORD_TTL "((), [])"]
  obtain result' s'' where
    r': "do_dns_update aws' HOSTED_ZONE_ID ''host1'' ''1.2.3.4'' DNS_RECORD_TTL ((), [])
          = (Inr result', s'')"
    and err: "\<forall>w1 error_code error_message es w2.
           route53_client aws' (fst ((), []::api_call list)) = (None, w1)
           \<and> change_resource_record_sets aws' HOSTED_ZONE_ID ''host1'' ''1.2.3.4'' DNS_RECORD_TTL w1
                = (Inl (ClientError error_code error_message es), w2)
           \<longrightarrow> result_status result' = Some (JStr ''error'')
             \<and> result_field result' ''error_code'' = Some (json_opt error_code)
             \<and> result_field result' ''error_message'' = Some (json_opt error_message)"
    by blast
  from err a' r'
  have two: "result_field (projr (fst (do_dns_update aws' HOSTED_ZONE_ID ''host1'' ''1.2.3.4''
      DNS_RECORD_TTL ((), [])))) ''error_code'' = Some (JStr ''Throttling'')"
    by (force simp: json_opt_def)
  from one two show ?thesis unfolding aws_def aws'_def by simp
qed

section \<open>UpdateDNS: events without an instance or a region\<close>

text \<open>
  Claim C10, as amended. For every event whose \<^verbatim>\<open>detail\<close> is absent or a dictionary, and in
  which the \<^verbatim>\<open>instance-id\<close> or the \<^verbatim>\<open>region\<close> is missing or the empty string, the handler
  returns status 400 and leaves the world and the trace as they were: no client is built
  and no call is made. As stated the claim covers every event; the counterexample is an
  event whose \<^verbatim>\<open>detail\<close> is \<^verbatim>\<open>null\<close>, where reading the \<^verbatim>\<open>instance-id\<close> raises before the
  validation.
\<close>

theorem missing_event_fields_rejected:
  assumes "detail_readable event"
    and "event_instance_id event = None \<or> event_instance_id event = Some []
         \<or> ev_region event = None \<or> ev_region event = Some []"
  shows "\<exists>r. UpdateDNS_lambda_handler aws event s = (Inr r, s) \<and> statusCode r = 400
           \<and> map_of (body r) ''message'' = Some (JStr
                ''Missing 'instance-id' or 'region' in the EC2 state-change event detail.'')"
  using assms
  unfolding UpdateDNS_lambda_handler_def detail_readable_def event_instance_id_def truthy_def
  by (auto split: option.splits detail_field.splits)

theorem missing_event_fields_rejected_witness:
  "detail_readable \<lparr> ev_detail = Some (Detail (Some [])), ev_region = Some ''eu-west-1'' \<rparr>
   \<and> event_instance_id \<lparr> ev_detail = Some (Detail (Some [])), ev_region = Some ''eu-west-1'' \<rparr>
        = Some []
   \<and> snd (UpdateDNS_lambda_handler (example_aws [] (\<lambda>i. None) change_ok)
        \<lparr> ev_detail = Some (Detail (Some [])), ev_region = Some ''eu-west-1'' \<rparr> ((), []))
        = ((), [])
   \<and> statusCode (projr (fst (UpdateDNS_lambda_handler (example_aws [] (\<lambda>i. None) change_ok)
        \<lparr> ev_detail = Some (Detail (Some [])), ev_region = Some ''eu-west-1'' \<rparr> ((), []))))
        = 400"
proof -
  define event where
    "event = \<lparr> ev_detail = Some (Detail (Some [])), ev_region = Some ''eu-west-1'' \<rparr>"
  have h1: "detail_readable event" by (simp add: event_def detail_readable_def)
  have h2: "event_instance_id event = Some []" by (simp add: event_def event_instance_id_def)
  from missing_event_fields_rejected[OF h1, of "example_aws [] (\<lambda>i. None) change_ok" "((), [])"]
    h1 h2
  show ?thesis unfolding event_def by auto
qed

theorem missing_event_fields_rejected_counterexample:
  "event_instance_id \<lparr> ev_detail = Some (NonDict JNull), ev_region = Some ''eu-west-1'' \<rparr> = None
   \<and> UpdateDNS_lambda_handler (example_aws [] (\<lambda>i. None) change_ok)
        \<lparr> ev_detail = Some (NonDict JNull), ev_region = Some ''eu-west-1'' \<rparr> ((), [])
      = (Inl (AttributeError ''NoneType''), ((), []))"
  by (simp add: UpdateDNS_lambda_handler_def event_instance_id_def)

section \<open>UpdateDNS: the status of the aggregate\<close>

text \<open>
  Claim C6. For every invocation with a well-formed event whose lookup succeeds and which
  reaches the aggregation (the response holds at least one instance and every instance
  yields a name), the handler returns status code 200; the \<^verbatim>\<open>status\<close> of the body is
  \<^verbatim>\<open>partial_success_with_errors\<close> if and only if some recorded update has status
  \<^verbatim>\<open>error\<close>, and \<^verbatim>\<open>success\<close> otherwise; one update is recorded for each instance.
\<close>

theorem aggregation_status:
  assumes valid: "sync_event_valid event"
    and client: "ec2_client aws (the (ev_region event)) w = (None, w1)"
    and describe: "describe_instances aws (the (event_instance_id event)) w1 = (Inr response, w2)"
    and nonempty: "page_instances response \<noteq> []"
    and resolved: "\<forall>i \<in> set (page_instances response). resolve_dns_name i \<noteq> None"
  shows "\<exists>r s'. UpdateDNS_lambda_handler aws event (w, []) = (Inr r, s')
           \<and> statusCode r = 200
           \<and> length (body_list r ''updates'') = length (page_instances response)
           \<and> (map_of (body r) ''status'' = Some (JStr ''partial_success_with_errors'')
                \<longleftrightarrow> (\<exists>x \<in> set (body_list r ''updates''). result_status x = Some (JStr ''error'')))
           \<and> (map_of (body r) ''status'' = Some (JStr ''success'')
                \<longleftrightarrow> \<not> (\<exists>x \<in> set (body_list r ''updates''). result_status x = Some (JStr ''error'')))"
proof -
  from process_instances_sync_resolved[OF resolved, of aws False "[]"
      "(w2, [Ec2Client (the (ev_region event)), DescribeInstances (the (event_instance_id event))])"]
  obtain new s' where
    p: "process_instances_sync aws (page_instances response) (False, [])
          (w2, [Ec2Client (the (ev_region event)), DescribeInstances (the (event_instance_id event))])
        = (Inr (False \<or> page_instances response \<noteq> [], [] @ new), s')"
    and len: "length new = length (page_instances response)"
    by blast
  have "UpdateDNS_lambda_handler aws event (w, [])
          = (Inr (aggregate (the (event_instance_id event)) (the (ev_region event)) new), s')"
    using handler_lookup[OF valid client describe, of "[]"] p nonempty by simp
  then show ?thesis
    using len by (auto simp: aggregate_fields any_error_def list_ex_iff)
qed

section \<open>UpdateDNS: a lookup without instances\<close>

text \<open>
  Claim C3, as amended. For every well-formed event whose lookup succeeds: if the response
  holds no instance at all (no reservation, or reservations without instances) the
  handler returns 404 with the message that the instance was not found, and no updates;
  and whenever it returns 200 at least one update is recorded, so the message that no
  updates were attempted never appears. As stated the claim gives 200 to a lookup that
  produces no update; the counterexample is a response with one reservation and no
  instance.
\<close>

theorem no_instance_is_not_found:
  assumes valid: "sync_event_valid event"
    and client: "ec2_client aws (the (ev_region event)) w = (None, w1)"
    and describe: "describe_instances aws (the (event_instance_id event)) w1 = (Inr response, w2)"
    and run: "UpdateDNS_lambda_handler aws event (w, []) = (out, s')"
  shows "(page_instances response = [] \<longrightarrow>
           (\<exists>r. out = Inr r \<and> statusCode r = 404
              \<and> map_of (body r) ''message''
                   = Some (JStr (''Instance with ID '' @ quoted (the (event_instance_id event))
                        @ '' not found or could not be described.''))
              \<and> map_of (body r) ''updates'' = None))
       \<and> (\<forall>r. out = Inr r \<and> statusCode r = 200 \<longrightarrow>
             body_list r ''updates'' \<noteq> []
             \<and> map_of (body r) ''message''
                  \<noteq> Some (JStr (''No DNS updates were attempted for instance ''
                        @ the (event_instance_id event) @ ''.'')))"
proof -
  define s0 where "s0 = (w2, [Ec2Client (the (ev_region event)),
      DescribeInstances (the (event_instance_id event))])"
  obtain o2 s3 where p: "process_instances_sync aws (page_instances response) (False, []) s0 = (o2, s3)"
    by (metis surj_pair)
  note h = handler_lookup[OF valid client describe, of "[]", simplified, folded s0_def]
  note oc = process_instances_sync_outcome[OF p]
  have first: "page_instances response = [] \<longrightarrow>
           (\<exists>r. out = Inr r \<and> statusCode r = 404
              \<and> map_of (body r) ''message''
                   = Some (JStr (''Instance with ID '' @ quoted (the (event_instance_id event))
                        @ '' not found or could not be described.''))
              \<and> map_of (body r) ''updates'' = None)"
    using h run by auto
  have second: "body_list r ''updates'' \<noteq> []
             \<and> map_of (body r) ''message''
                  \<noteq> Some (JStr (''No DNS updates were attempted for instance ''
                        @ the (event_instance_id event) @ ''.''))"
    if r: "out = Inr r" "statusCode r = 200" for r
  proof (cases o2)
    case (Inl x)
    with oc p h run r show ?thesis by (cases x) auto
  next
    case (Inr acc)
    obtain found results where acc: "acc = (found, results)" by (cases acc)
    with Inr oc have f: "found = (page_instances response \<noteq> [])"
      "length results = length (page_instances response)" by auto
    show ?thesis
    proof (cases found)
      case False
      with Inr acc p h run r show ?thesis by auto
    next
      case True
      with f have ne: "results \<noteq> []" by auto
      from True Inr acc p h run r
      have "r = aggregate (the (event_instance_id event)) (the (ev_region event)) results"
        by auto
      with ne show ?thesis by (simp add: aggregate_fields)
    qed
  qed
  from first second show ?thesis by blast
qed

section \<open>UpdateDNS: the name of the record\<close>

text \<open>
  Claim C2. For every instance found by the lookup, the name is resolved in a fixed order:
  the value of the \<^verbatim>\<open>PublicDNS\<close> tag when it is present and not empty, otherwise the value
  of the \<^verbatim>\<open>Name\<close> tag when it is present and not empty, and the upsert helper is called
  with that name when the instance has a public address; when neither tag gives a name
  the handler returns 400 with the message that the name cannot be determined, in the
  state reached after the instances before this one: none of the instances after it is
  processed.
\<close>

theorem dns_name_resolution_order:
  assumes valid: "sync_event_valid event"
    and client: "ec2_client aws (the (ev_region event)) w = (None, w1)"
    and describe: "describe_instances aws (the (event_instance_id event)) w1 = (Inr response, w2)"
    and split: "page_instances response = pre @ i # post"
    and pre: "\<forall>j \<in> set pre. resolve_dns_name j \<noteq> None"
  shows "resolve_dns_name i =
           (if truthy (tag_value i ''PublicDNS'') then tag_value i ''PublicDNS''
            else if truthy (tag_value i ''Name'') then tag_value i ''Name''
            else None)
       \<and> (\<forall>name results s. resolve_dns_name i = Some name \<and> truthy (PublicIpAddress i) \<longrightarrow>
             (\<exists>x s1. process_instance aws i results s = (Inr (results @ [x]), s1)
                \<and> do_dns_update aws HOSTED_ZONE_ID name (the (PublicIpAddress i)) DNS_RECORD_TTL s
                     = (Inr x, s1)))
       \<and> (resolve_dns_name i = None \<longrightarrow>
             (\<exists>acc s3.
                process_instances_sync aws pre (False, [])
                  (w2, [Ec2Client (the (ev_region event)),
                        DescribeInstances (the (event_instance_id event))]) = (Inr acc, s3)
                \<and> UpdateDNS_lambda_handler aws event (w, []) = (Inr (no_dns_name_response i), s3)
                \<and> statusCode (no_dns_name_response i) = 400
                \<and> map_of (body (no_dns_name_response i)) ''message''
                     = Some (JStr (''Cannot determine DNS name for instance ''
                          @ quoted (InstanceId i) @ '': No tags found on the instance.''))))"
proof -
  define s0 where "s0 = (w2, [Ec2Client (the (ev_region event)),
      DescribeInstances (the (event_instance_id event))])"
  have second: "\<exists>x s1. process_instance aws i results s = (Inr (results @ [x]), s1)
                \<and> do_dns_update aws HOSTED_ZONE_ID name (the (PublicIpAddress i)) DNS_RECORD_TTL s
                     = (Inr x, s1)"
    if "resolve_dns_name i = Some name" "truthy (PublicIpAddress i)" for name results s
    using process_instance_resolved[OF that(1), of aws results s] that(2) by blast
  have third: "\<exists>acc s3.
                process_instances_sync aws pre (False, []) s0 = (Inr acc, s3)
                \<and> UpdateDNS_lambda_handler aws event (w, []) = (Inr (no_dns_name_response i), s3)
                \<and> statusCode (no_dns_name_response i) = 400
                \<and> map_of (body (no_dns_name_response i)) ''message''
                     = Some (JStr (''Cannot determine DNS name for instance ''
                          @ quoted (InstanceId i) @ '': No tags found on the instance.''))"
    if none: "resolve_dns_name i = None"
  proof -
    from process_instances_sync_resolved[OF pre, of aws False "[]" s0] obtain new s3 where
      p: "process_instances_sync aws pre (False, []) s0 = (Inr (False \<or> pre \<noteq> [], [] @ new), s3)"
      by blast
    have "process_instances_sync aws (pre @ i # post) (False, []) s0
            = (Inl (Inr (no_dns_name_response i)), s3)"
      using p none by (simp add: process_instances_sync_append process_instance_unresolved)
    then have "UpdateDNS_lambda_handler aws event (w, []) = (Inr (no_dns_name_response i), s3)"
      using handler_lookup[OF valid client describe, of "[]"] split by (simp add: s0_def)
    with p show ?thesis by (auto simp: no_dns_name_response_def)
  qed
  from resolve_dns_name_order[of i] second third show ?thesis
    unfolding s0_def by blast
qed


section \<open>UpdateDNS: the theorems at concrete events\<close>

theorem aggregation_status_witness:
  "sync_event_valid example_event
   \<and> statusCode (projr (fst (UpdateDNS_lambda_handler
        (example_aws [example_page [example_instance ''i-0123456789abcdef0'' ''running''
                                      [(''Name'', ''host1'')] (Some ''1.2.3.4'')]]
           (\<lambda>i. None) (Inl (ClientError (Some ''Throttling'') (Some ''Rate exceeded'') [])))
        example_event ((), [])))) = 200
   \<and> map_of (body (projr (fst (UpdateDNS_lambda_handler
        (example_aws [example_page [example_instance ''i-0123456789abcdef0'' ''running''
                                      [(''Name'', ''host1'')] (Some ''1.2.3.4'')]]
           (\<lambda>i. None) (Inl (ClientError (Some ''Throttling'') (Some ''Rate exceeded'') [])))
        example_event ((), []))))) ''status'' = Some (JStr ''partial_success_with_errors'')"
proof -
  define page where
    "page = example_page [example_instance ''i-0123456789abcdef0'' ''running''
                            [(''Name'', ''host1'')] (Some ''1.2.3.4'')]"
  define aws where "aws = example_aws [page] (\<lambda>i. None)
      (Inl (ClientError (Some ''Throttling'') (Some ''Rate exceeded'') []))"
  have h1: "sync_event_valid example_event" by code_simp
  have h2: "ec2_client aws (the (ev_region example_event)) () = (None, ())"
    unfolding aws_def by (simp add: example_aws_def)
  have h3: "describe_instances aws (the (event_instance_id example_event)) () = (Inr page, ())"
    unfolding aws_def by (simp add: example_aws_def)
  have h4: "page_instances page \<noteq> []" unfolding page_def by code_simp
  have h5: "\<forall>i \<in> set (page_instances page). resolve_dns_name i \<noteq> None"
    unfolding page_def by code_simp
  have e: "\<exists>x \<in> set (body_list (projr (fst (UpdateDNS_lambda_handler aws example_event ((), []))))
             ''updates''). result_status x = Some (JStr ''error'')"
    unfolding aws_def page_def by code_simp
  from aggregation_status[OF h1 h2 h3 h4 h5] e h1
  show ?thesis unfolding aws_def page_def by force
qed

theorem no_instance_is_not_found_witness:
  "sync_event_valid example_event
   \<and> page_instances (example_page []) = []
   \<and> statusCode (projr (fst (UpdateDNS_lambda_handler
        (example_aws [example_page []] (\<lambda>i. None) change_ok) example_event ((), [])))) = 404
   \<and> map_of (body (projr (fst (UpdateDNS_lambda_handler
        (example_aws [example_page []] (\<lambda>i. None) change_ok) example_event ((), [])))))
        ''updates'' = None"
proof -
  define aws where "aws = example_aws [example_page []] (\<lambda>i. None) change_ok"
  have h1: "sync_event_valid example_event" by code_simp
  have h2: "ec2_client aws (the (ev_region example_event)) () = (None, ())"
    unfolding aws_def by (simp add: example_aws_def)
  have h3: "describe_instances aws (the (event_instance_id example_event)) ()
              = (Inr (example_page []), ())"
    unfolding aws_def by (simp add: example_aws_def)
  have h4: "page_instances (example_page []) = []" by code_simp
  have c: "UpdateDNS_lambda_handler aws example_event ((), [])
             = (fst (UpdateDNS_lambda_handler aws example_event ((), [])),
                snd (UpdateDNS_lambda_handler aws example_event ((), [])))"
    by simp
  from no_instance_is_not_found[OF h1 h2 h3 c] h1 h4
  show ?thesis unfolding aws_def by force
qed

theorem no_instance_is_not_found_counterexample:
  "sync_event_valid example_event
   \<and> describe_instances (example_aws [example_page []] (\<lambda>i. None) change_ok)
        (the (event_instance_id example_event)) ()
      = (Inr \<lparr> Reservations = Some [\<lparr> Instances = Some [] \<rparr>] \<rparr>, ())
   \<and> fst (UpdateDNS_lambda_handler (example_aws [example_page []] (\<lambda>i. None) change_ok)
        example_event ((), []))
      = Inr \<lparr> statusCode = 404,
              body = [(''status'', JStr ''error''),
                      (''message'', JStr (''Instance with ID '' @ quoted ''i-0123456789abcdef0''
                         @ '' not found or could not be described.'')),
                      (''instance_id'', JStr ''i-0123456789abcdef0''),
                      (''region'', JStr ''eu-west-1'')] \<rparr>"
  by code_simp

theorem dns_name_resolution_order_witness:
  "sync_event_valid example_event
   \<and> resolve_dns_name (example_instance ''i-0aaaaaaaaaaaaaaa1'' ''running''
        [(''PublicDNS'', ''''), (''Name'', ''host1'')] (Some ''1.2.3.4'')) = Some ''host1''
   \<and> resolve_dns_name (example_instance ''i-0aaaaaaaaaaaaaaa2'' ''running'' [] (Some ''1.2.3.5''))
        = None
   \<and> UpdateDNS_lambda_handler
        (example_aws [example_page
           [example_instance ''i-0aaaaaaaaaaaaaaa1'' ''running''
              [(''PublicDNS'', ''''), (''Name'', ''host1'')] (Some ''1.2.3.4''),
            example_instance ''i-0aaaaaaaaaaaaaaa2'' ''running'' [] (Some ''1.2.3.5''),
            example_instance ''i-0aaaaaaaaaaaaaaa3'' ''running''
              [(''PublicDNS'', ''host3'')] (Some ''1.2.3.6'')]]
           (\<lambda>i. None) change_ok)
        example_event ((), [])
      = (Inr (no_dns_name_response
                (example_instance ''i-0aaaaaaaaaaaaaaa2'' ''running'' [] (Some ''1.2.3.5''))),
         ((), [Ec2Client ''eu-west-1'', DescribeInstances ''i-0123456789abcdef0'',
               Route53Client,
               ChangeResourceRecordSets HOSTED_ZONE_ID ''host1'' ''1.2.3.4'' DNS_RECORD_TTL]))"
proof -
  define a where "a = example_instance ''i-0aaaaaaaaaaaaaaa1'' ''running''
      [(''PublicDNS'', ''''), (''Name'', ''host1'')] (Some ''1.2.3.4'')"
  define b where "b = example_instance ''i-0aaaaaaaaaaaaaaa2'' ''running'' [] (Some ''1.2.3.5'')"
  define c where "c = example_instance ''i-0aaaaaaaaaaaaaaa3'' ''running''
      [(''PublicDNS'', ''host3'')] (Some ''1.2.3.6'')"
  define aws where "aws = example_aws [example_page [a, b, c]] (\<lambda>i. None) change_ok"
  have h1: "sync_event_valid example_event" by code_simp
  have h2: "ec2_client aws (the (ev_region example_event)) () = (None, ())"
    unfolding aws_def by (simp add: example_aws_def)
  have h3: "describe_instances aws (the (event_instance_id example_event)) ()
              = (Inr (example_page [a, b, c]), ())"
    unfolding aws_def by (simp add: example_aws_def)
  have h4: "page_instances (example_page [a, b, c]) = [a] @ b # [c]"
    by (simp add: page_instances_def reservation_instances_def example_page_def)
  have ra: "resolve_dns_name a = Some ''host1''" unfolding a_def by code_simp
  have rb: "resolve_dns_name b = None" unfolding b_def by code_simp
  have h5: "\<forall>j \<in> set [a]. resolve_dns_name j \<noteq> None" using ra by simp
  have p: "process_instances_sync aws [a] (False, [])
             ((), [Ec2Client (the (ev_region example_event)),
                   DescribeInstances (the (event_instance_id example_event))])
           = (Inr (True, [JObj [(''dns_name'', JStr ''host1''), (''ip_address'', JStr ''1.2.3.4''),
                                (''action'', JStr ''UPSERT''),
                                (''change_info'', JObj [(''Id'', JStr ''/change/C2682N5HXP0BZ4''),
                                                        (''Status'', JStr ''PENDING'')]),
                                (''status'', JStr ''success'')]]),
              ((), [Ec2Client ''eu-west-1'', DescribeInstances ''i-0123456789abcdef0'',
                    Route53Client,
                    ChangeResourceRecordSets HOSTED_ZONE_ID ''host1'' ''1.2.3.4'' DNS_RECORD_TTL]))"
    unfolding aws_def a_def b_def c_def by code_simp
  from dns_name_resolution_order[OF h1 h2 h3 h4 h5] rb p
  have "UpdateDNS_lambda_handler aws example_event ((), [])
      = (Inr (no_dns_name_response b),
         ((), [Ec2Client ''eu-west-1'', DescribeInstances ''i-0123456789abcdef0'',
               Route53Client,
               ChangeResourceRecordSets HOSTED_ZONE_ID ''host1'' ''1.2.3.4'' DNS_RECORD_TTL]))"
    by auto
  with h1 ra rb show ?thesis unfolding aws_def a_def b_def c_def by simp
qed

end
